theory Spec2Isabelle
  imports Complex_Main
begin

section \<open>The host platform: text, numbers, regular expressions, exceptions\<close>

text \<open>
  Text is a list of characters, one \<open>char\<close> per code unit of the JavaScript string
  (ISO-8859-1 reading of the 8-bit \<open>char\<close>). Numbers that the code only ever builds
  from array lengths, literals and \<open>parseInt\<close> are integers (doubles are exact on
  integers below \<open>2^53\<close>); the result of \<open>parseInt\<close> is a \<open>number\<close>, an integer or
  \<open>NaN\<close>.
\<close>

datatype number = Num int | NaN

abbreviation BS :: char where
  "BS \<equiv> CHR 0x5C"

definition code :: "char \<Rightarrow> nat" where
  "code c = of_char c"

definition isWhiteSpace :: "char \<Rightarrow> bool" where
  "isWhiteSpace c = (code c \<in> {9, 10, 11, 12, 13, 32, 160})"

definition toLowerChar :: "char \<Rightarrow> char" where
  "toLowerChar c =
     (let n = code c
      in if (65 \<le> n \<and> n \<le> 90) \<or> (192 \<le> n \<and> n \<le> 222 \<and> n \<noteq> 215)
         then char_of (n + 32) else c)"

definition toLowerCase :: "string \<Rightarrow> string" where
  "toLowerCase s = map toLowerChar s"

text \<open>\<open>s.replace(/\s+/g, '')\<close>: every white-space character is dropped.\<close>

definition removeWhiteSpace :: "string \<Rightarrow> string" where
  "removeWhiteSpace s = filter (\<lambda>c. \<not> isWhiteSpace c) s"

fun startsWith :: "string \<Rightarrow> string \<Rightarrow> bool" where
  "startsWith s [] = True"
| "startsWith [] (p # ps) = False"
| "startsWith (c # s) (p # ps) = (c = p \<and> startsWith s ps)"

fun str_includes :: "string \<Rightarrow> string \<Rightarrow> bool" where
  "str_includes [] p = (p = [])"
| "str_includes (c # s) p = (startsWith (c # s) p \<or> str_includes s p)"

text \<open>\<open>s.slice(0, n)\<close> for a non-negative \<open>n\<close>.\<close>

definition slice0 :: "string \<Rightarrow> nat \<Rightarrow> string" where
  "slice0 s n = take n s"

text \<open>
  \<open>s.split(/,\s*/)\<close>: the separators are the commas, each with the white space that
  follows it; the pieces between them are returned, empty ones included (\<open>skip\<close>
  holds while the white space after a comma is being consumed).
\<close>

fun splitCommaAcc :: "bool \<Rightarrow> string \<Rightarrow> string \<Rightarrow> string list" where
  "splitCommaAcc skip acc [] = [rev acc]"
| "splitCommaAcc skip acc (c # s) =
     (if skip \<and> isWhiteSpace c then splitCommaAcc True acc s
      else if c = CHR '','' then rev acc # splitCommaAcc True [] s
      else splitCommaAcc False (c # acc) s)"

definition splitComma :: "string \<Rightarrow> string list" where
  "splitComma s = splitCommaAcc False [] s"

text \<open>
  \<open>parseInt(s)\<close> with no radix: leading white space, an optional sign, an optional
  \<open>0x\<close> prefix, then the longest run of digits of the radix; \<open>NaN\<close> when the run is
  empty. \<open>parseInt(undefined)\<close> is \<open>NaN\<close>.
\<close>

definition digitVal :: "char \<Rightarrow> nat option" where
  "digitVal c =
     (let n = code c
      in if 48 \<le> n \<and> n \<le> 57 then Some (n - 48)
         else if 97 \<le> n \<and> n \<le> 102 then Some (n - 87)
         else if 65 \<le> n \<and> n \<le> 70 then Some (n - 55)
         else None)"

fun digitsPrefix :: "nat \<Rightarrow> string \<Rightarrow> nat list" where
  "digitsPrefix r [] = []"
| "digitsPrefix r (c # s) =
     (case digitVal c of
        Some d \<Rightarrow> (if d < r then d # digitsPrefix r s else [])
      | None \<Rightarrow> [])"

definition parseInt :: "string \<Rightarrow> number" where
  "parseInt s =
     (let t = dropWhile isWhiteSpace s;
          neg = (case t of c # r \<Rightarrow> c = CHR ''-'' | [] \<Rightarrow> False);
          u = (case t of c # r \<Rightarrow> (if c = CHR ''-'' \<or> c = CHR ''+'' then r else t) | [] \<Rightarrow> t);
          hex = (case u of a # b # r \<Rightarrow> a = CHR ''0'' \<and> (b = CHR ''x'' \<or> b = CHR ''X'') | _ \<Rightarrow> False);
          radix = (if hex then 16 else 10);
          ds = digitsPrefix radix (if hex then drop 2 u else u);
          v = int (foldl (\<lambda>a d. a * radix + d) 0 ds)
      in if ds = [] then NaN else Num (if neg then - v else v))"

definition parseIntOpt :: "string option \<Rightarrow> number" where
  "parseIntOpt g = (case g of None \<Rightarrow> NaN | Some s \<Rightarrow> parseInt s)"

text \<open>
  A thrown value: an \<open>Error\<close> instance with its message, or any other value with its
  \<open>String(...)\<close> rendering.
\<close>

datatype exn = ErrorObject string | ThrownValue string

text \<open>
  A regular expression is its source and flags. The engine (\<open>RegExp.prototype.exec\<close>,
  \<open>String.prototype.match\<close>) is the host's: it is a parameter \<open>E\<close> of every function
  that matches, giving for an expression and a text the successive matches of a scan
  from index 0. A match array is \<open>match[0]\<close>, the capture groups (\<open>undefined\<close> is
  \<open>None\<close>) and \<open>match.index\<close>.
\<close>

record RegExp =
  re_source :: string
  re_flags :: string

record RegExpMatchArray =
  m_whole :: string
  m_groups :: "string option list"
  m_index :: nat

type_synonym RegExpEngine = "RegExp \<Rightarrow> string \<Rightarrow> RegExpMatchArray list"

definition re :: "string \<Rightarrow> string \<Rightarrow> RegExp" where
  "re src fl = \<lparr>re_source = src, re_flags = fl\<rparr>"

definition re_global :: "RegExp \<Rightarrow> bool" where
  "re_global r = (CHR ''g'' \<in> set (re_flags r))"

definition m_group :: "RegExpMatchArray \<Rightarrow> nat \<Rightarrow> string option" where
  "m_group m i =
     (if i = 0 then Some (m_whole m)
      else if i \<le> length (m_groups m) then m_groups m ! (i - 1)
      else None)"

text \<open>\<open>text.match(r)\<close> for an expression without the \<open>g\<close> flag: the first match or null.\<close>

definition str_match :: "RegExpEngine \<Rightarrow> RegExp \<Rightarrow> string \<Rightarrow> RegExpMatchArray option" where
  "str_match E r t = (case E r t of [] \<Rightarrow> None | m # _ \<Rightarrow> Some m)"

text \<open>The random source: the \<open>k\<close>-th call of \<open>Math.random()\<close>, already scaled and
  floored the way its only caller does (\<open>Math.floor(Math.random() * chars.length)\<close>).\<close>

type_synonym RandomSource = "nat \<Rightarrow> nat"

section \<open>Core types\<close>

datatype AbilityType =
  WEAPON_ATTACK | SPELL_ATTACK | SAVE_ABILITY | HEALING | UTILITY | PASSIVE | REACTION

text \<open>\<open>AutomationComplexity\<close> is a numeric enum; the code compares and maximises its
  values as numbers.\<close>

type_synonym AutomationComplexity = int

definition SIMPLE :: AutomationComplexity where "SIMPLE = 1"
definition MODERATE :: AutomationComplexity where "MODERATE = 2"
definition COMPLEX :: AutomationComplexity where "COMPLEX = 3"
definition REACTION_TIER :: AutomationComplexity where "REACTION_TIER = 4"

datatype AttackType = mwak | rwak | msak | rsak

datatype ActivationType =
  A_action | A_bonus | A_reaction | A_legendary | A_lair | A_special

record ActivationData =
  act_type :: ActivationType
  act_cost :: int
  act_condition :: "string option"

datatype TargetType = T_self | T_creature | T_ally | T_enemy | T_object | T_space

record TargetData =
  tgt_value :: "int option"
  tgt_type :: TargetType
  tgt_width :: "int option"
  tgt_units :: "string option"

datatype RangeUnits = R_ft | R_mi | R_touch | R_self | R_sight | R_unlimited | R_special

record RangeData =
  rng_value :: "int option"
  rng_long :: "int option"
  rng_units :: RangeUnits

record DamageData =
  dmg_formula :: string
  dmg_type :: string
  dmg_versatile :: "string option"
  dmg_conditional :: "bool option"
  dmg_condition :: "string option"

datatype SaveScaling = S_flat | S_spell | S_dex | S_prof

record SaveData =
  save_ability :: string
  save_dc :: "int option"
  save_scaling :: SaveScaling

datatype DurationUnits =
  U_inst | U_turn | U_round | U_minute | U_hour | U_day | U_perm | U_spec

record DurationData =
  dur_value :: "int option"
  dur_units :: DurationUnits
  dur_concentration :: "bool option"

datatype EffectType =
  E_ac_bonus | E_ability_modifier | E_damage_resistance | E_condition
  | E_advantage | E_disadvantage

record EffectData =
  eff_name :: "string option"
  eff_type :: EffectType
  eff_value :: "int option"
  eff_ability :: "string option"
  eff_damageTypes :: "string list option"
  eff_amount :: "int option"
  eff_condition :: "string option"

datatype CondValue = CV_bool bool | CV_string string

datatype SaveEndsTiming = start_of_turn | end_of_turn

record ConditionData =
  cond_type :: string
  cond_name :: string
  cond_value :: CondValue
  cond_condition :: "string option"
  cond_saveEnds :: "bool option"
  cond_saveEndsTiming :: "SaveEndsTiming option"

datatype ResourceType = per_day | per_rest | recharge | charges

record ResourceData =
  res_consumesResource :: bool
  res_type :: "ResourceType option"
  res_amount :: "int option"
  res_consumed :: "int option"
  res_recharge :: "string option"

text \<open>An entry of \<open>requirements\<close> (\<open>AbilityRequirement\<close> of the complex parser); the
  generated validation script, an opaque text, is left out.\<close>

record AbilityRequirement =
  req_type :: string
  req_condition :: string
  req_description :: string
  req_automationHook :: string

record ParsedAbility =
  name :: string
  raw :: string
  atype :: AbilityType
  attackType :: "AttackType option"
  attackBonus :: "int option"
  activation :: ActivationData
  target :: TargetData
  damage :: "DamageData list"
  saves :: "SaveData list"
  effects :: "EffectData list"
  conditions :: "ConditionData list"
  resources :: ResourceData
  duration :: DurationData
  range :: RangeData
  complexity :: AutomationComplexity
  requirements :: "AbilityRequirement list"

section \<open>Fact extraction engine (pattern-matcher.ts)\<close>

text \<open>
  A JavaScript \<open>Map\<close> is an association list in insertion order with distinct keys:
  \<open>set\<close> overwrites the value of a key in place or appends a new entry, \<open>get\<close> and
  \<open>has\<close> are \<open>map_of\<close>.
\<close>

fun map_set :: "'k \<Rightarrow> 'v \<Rightarrow> ('k \<times> 'v) list \<Rightarrow> ('k \<times> 'v) list" where
  "map_set k v [] = [(k, v)]"
| "map_set k v ((k', v') # m) =
     (if k = k' then (k, v) # m else (k', v') # map_set k v m)"

record 'a ParsingPattern =
  p_name :: string
  p_regex :: RegExp
  p_extractor :: "RegExpMatchArray \<Rightarrow> exn + 'a"
  p_priority :: int

text \<open>An entry of a result list: \<open>{...extracted, matchText: match[0], index: match.index}\<close>.\<close>

record 'a PatternMatch =
  pm_extracted :: 'a
  pm_matchText :: string
  pm_index :: nat

text \<open>The console: the arguments of each \<open>console.warn\<close> call, in order.\<close>

type_synonym Console = "(string \<times> exn) list"

definition addPattern ::
  "(string \<times> 'a ParsingPattern) list \<Rightarrow> 'a ParsingPattern \<Rightarrow> (string \<times> 'a ParsingPattern) list" where
  "addPattern patterns pattern = map_set (p_name pattern) pattern patterns"

text \<open>
  The \<open>while\<close> loop of \<open>extractPatterns\<close> over the successive results of
  \<open>pattern.regex.exec(text)\<close>: the extractor runs inside \<open>try\<close>, a throw is caught and
  warned about, and an expression without the \<open>g\<close> flag leaves the loop after its first
  match. (With the \<open>g\<close> flag the loop ends when \<open>exec\<close> returns null; an expression
  that matches the empty string would never get there, and no registered one does.)
\<close>

fun whileExec ::
  "string \<Rightarrow> 'a ParsingPattern \<Rightarrow> RegExpMatchArray list \<Rightarrow> 'a PatternMatch list \<Rightarrow> Console
   \<Rightarrow> 'a PatternMatch list \<times> Console" where
  "whileExec nm pattern [] matches con = (matches, con)"
| "whileExec nm pattern (m # rest) matches con =
     (case p_extractor pattern m of
        Inr extracted \<Rightarrow>
          (let matches' = matches @ [\<lparr>pm_extracted = extracted, pm_matchText = m_whole m,
                                      pm_index = m_index m\<rparr>]
           in if \<not> re_global (p_regex pattern) then (matches', con)
              else whileExec nm pattern rest matches' con)
      | Inl error \<Rightarrow>
          (let con' = con @ [(''Error extracting pattern '' @ nm @ '':'', error)]
           in if \<not> re_global (p_regex pattern) then (matches, con')
              else whileExec nm pattern rest matches con'))"

fun forPatterns ::
  "RegExpEngine \<Rightarrow> string \<Rightarrow> (string \<times> 'a ParsingPattern) list
   \<Rightarrow> (string \<times> 'a PatternMatch list) list \<Rightarrow> Console
   \<Rightarrow> (string \<times> 'a PatternMatch list) list \<times> Console" where
  "forPatterns E text [] results con = (results, con)"
| "forPatterns E text ((nm, pattern) # sortedPatterns) results con =
     (let (matches, con') = whileExec nm pattern (E (p_regex pattern) text) [] con
      in forPatterns E text sortedPatterns
           (if length matches > 0 then map_set nm matches results else results) con')"

text \<open>\<open>Array.prototype.sort\<close> is stable, as \<open>sort_key\<close> is; highest priority first.\<close>

definition sortByPriority ::
  "(string \<times> 'a ParsingPattern) list \<Rightarrow> (string \<times> 'a ParsingPattern) list" where
  "sortByPriority entries = sort_key (\<lambda>(nm, pattern). - p_priority pattern) entries"

definition extractPatterns ::
  "RegExpEngine \<Rightarrow> (string \<times> 'a ParsingPattern) list \<Rightarrow> string
   \<Rightarrow> (string \<times> 'a PatternMatch list) list \<times> Console" where
  "extractPatterns E patterns text = forPatterns E text (sortByPriority patterns) [] []"

definition getFirstMatch ::
  "RegExpEngine \<Rightarrow> (string \<times> 'a ParsingPattern) list \<Rightarrow> string \<Rightarrow> string
   \<Rightarrow> 'a option \<times> Console" where
  "getFirstMatch E patterns text patternName =
     (case map_of patterns patternName of
        None \<Rightarrow> (None, [])
      | Some pattern \<Rightarrow>
          (case E (p_regex pattern) text of
             [] \<Rightarrow> (None, [])
           | m # _ \<Rightarrow>
               (case p_extractor pattern m of
                  Inr extracted \<Rightarrow> (Some extracted, [])
                | Inl error \<Rightarrow>
                    (None, [(''Error extracting pattern '' @ patternName @ '':'', error)]))))"

subsection \<open>The registered patterns\<close>

text \<open>
  The objects the extractors build, one constructor per shape, the fields in the
  order of the object literal. A property that holds \<open>null\<close>, or that the literal does
  not have, is \<open>None\<close>.
\<close>

datatype Fact =
    AttackFact string number
  | DamageFact "number option" string string
  | SaveFact number string
  | DurationFact "number option" string "bool option"
  | RangeFact "number option" "number option" string
  | AreaFact string number
  | ActivationFact string int
  | AdvantageFact string string
  | ResistanceFact string "string list"
  | UsesFact string number "string option"
  | RechargeFact string number number

text \<open>Calling a method on \<open>undefined\<close> throws a \<open>TypeError\<close>; its message is the
  engine's.\<close>

definition typeError :: "string \<Rightarrow> exn" where
  "typeError prop = ErrorObject (''Cannot read properties of undefined (reading '' @ prop @ '')'')"

definition truthy :: "string option \<Rightarrow> bool" where
  "truthy g = (case g of None \<Rightarrow> False | Some s \<Rightarrow> s \<noteq> [])"

definition weapon_attack_extractor :: "RegExpMatchArray \<Rightarrow> exn + Fact" where
  "weapon_attack_extractor m =
     Inr (AttackFact (if str_includes (toLowerCase (m_whole m)) ''melee'' then ''mwak'' else ''rwak'')
            (parseIntOpt (m_group m 1)))"

definition spell_attack_extractor :: "RegExpMatchArray \<Rightarrow> exn + Fact" where
  "spell_attack_extractor m =
     Inr (AttackFact (if str_includes (toLowerCase (m_whole m)) ''melee'' then ''msak'' else ''rsak'')
            (parseIntOpt (m_group m 1)))"

definition damage_with_average_extractor :: "RegExpMatchArray \<Rightarrow> exn + Fact" where
  "damage_with_average_extractor m =
     (case m_group m 2 of
        None \<Rightarrow> Inl (typeError ''replace'')
      | Some g2 \<Rightarrow>
          (case m_group m 3 of
             None \<Rightarrow> Inl (typeError ''toLowerCase'')
           | Some g3 \<Rightarrow>
               Inr (DamageFact (Some (parseIntOpt (m_group m 1))) (removeWhiteSpace g2)
                      (toLowerCase g3))))"

definition damage_simple_extractor :: "RegExpMatchArray \<Rightarrow> exn + Fact" where
  "damage_simple_extractor m =
     (case m_group m 1 of
        None \<Rightarrow> Inl (typeError ''replace'')
      | Some g1 \<Rightarrow>
          (case m_group m 2 of
             None \<Rightarrow> Inl (typeError ''toLowerCase'')
           | Some g2 \<Rightarrow> Inr (DamageFact None (removeWhiteSpace g1) (toLowerCase g2))))"

definition save_dc_extractor :: "RegExpMatchArray \<Rightarrow> exn + Fact" where
  "save_dc_extractor m =
     (case m_group m 2 of
        None \<Rightarrow> Inl (typeError ''toLowerCase'')
      | Some g2 \<Rightarrow> Inr (SaveFact (parseIntOpt (m_group m 1)) (slice0 (toLowerCase g2) 3)))"

definition duration_concentration_extractor :: "RegExpMatchArray \<Rightarrow> exn + Fact" where
  "duration_concentration_extractor m =
     (case m_group m 2 of
        None \<Rightarrow> Inl (typeError ''toLowerCase'')
      | Some g2 \<Rightarrow>
          Inr (DurationFact (Some (parseIntOpt (m_group m 1))) (toLowerCase g2)
                 (Some (str_includes (toLowerCase (m_whole m)) ''concentration''))))"

definition duration_rounds_extractor :: "RegExpMatchArray \<Rightarrow> exn + Fact" where
  "duration_rounds_extractor m =
     Inr (DurationFact (Some (parseIntOpt (m_group m 1))) ''round'' None)"

definition duration_instant_extractor :: "RegExpMatchArray \<Rightarrow> exn + Fact" where
  "duration_instant_extractor m = Inr (DurationFact None ''inst'' None)"

definition range_distance_extractor :: "RegExpMatchArray \<Rightarrow> exn + Fact" where
  "range_distance_extractor m =
     Inr (RangeFact (Some (parseIntOpt (m_group m 1)))
            (if truthy (m_group m 2) then Some (parseIntOpt (m_group m 2)) else None) ''ft'')"

definition range_touch_extractor :: "RegExpMatchArray \<Rightarrow> exn + Fact" where
  "range_touch_extractor m = Inr (RangeFact None None ''touch'')"

definition range_self_extractor :: "RegExpMatchArray \<Rightarrow> exn + Fact" where
  "range_self_extractor m = Inr (RangeFact None None ''self'')"

definition area_radius_extractor :: "RegExpMatchArray \<Rightarrow> exn + Fact" where
  "area_radius_extractor m = Inr (AreaFact ''radius'' (parseIntOpt (m_group m 1)))"

definition area_cone_extractor :: "RegExpMatchArray \<Rightarrow> exn + Fact" where
  "area_cone_extractor m = Inr (AreaFact ''cone'' (parseIntOpt (m_group m 1)))"

definition area_line_extractor :: "RegExpMatchArray \<Rightarrow> exn + Fact" where
  "area_line_extractor m = Inr (AreaFact ''line'' (parseIntOpt (m_group m 1)))"

definition activation_action_extractor :: "RegExpMatchArray \<Rightarrow> exn + Fact" where
  "activation_action_extractor m = Inr (ActivationFact ''action'' 1)"

definition activation_bonus_extractor :: "RegExpMatchArray \<Rightarrow> exn + Fact" where
  "activation_bonus_extractor m = Inr (ActivationFact ''bonus'' 1)"

definition activation_reaction_extractor :: "RegExpMatchArray \<Rightarrow> exn + Fact" where
  "activation_reaction_extractor m = Inr (ActivationFact ''reaction'' 1)"

definition advantage_extractor :: "RegExpMatchArray \<Rightarrow> exn + Fact" where
  "advantage_extractor m =
     Inr (AdvantageFact ''advantage''
            (case m_group m 1 of
               Some g1 \<Rightarrow> (if g1 \<noteq> [] then toLowerCase g1 else ''all'')
             | None \<Rightarrow> ''all''))"

definition disadvantage_extractor :: "RegExpMatchArray \<Rightarrow> exn + Fact" where
  "disadvantage_extractor m =
     Inr (AdvantageFact ''disadvantage''
            (case m_group m 1 of
               Some g1 \<Rightarrow> (if g1 \<noteq> [] then toLowerCase g1 else ''all'')
             | None \<Rightarrow> ''all''))"

definition damage_resistance_extractor :: "RegExpMatchArray \<Rightarrow> exn + Fact" where
  "damage_resistance_extractor m =
     (case m_group m 1 of
        None \<Rightarrow> Inl (typeError ''split'')
      | Some g1 \<Rightarrow> Inr (ResistanceFact ''resistance'' (map toLowerCase (splitComma g1))))"

definition damage_immunity_extractor :: "RegExpMatchArray \<Rightarrow> exn + Fact" where
  "damage_immunity_extractor m =
     (case m_group m 1 of
        None \<Rightarrow> Inl (typeError ''split'')
      | Some g1 \<Rightarrow> Inr (ResistanceFact ''immunity'' (map toLowerCase (splitComma g1))))"

definition uses_per_day_extractor :: "RegExpMatchArray \<Rightarrow> exn + Fact" where
  "uses_per_day_extractor m = Inr (UsesFact ''per_day'' (parseIntOpt (m_group m 1)) None)"

definition uses_per_rest_extractor :: "RegExpMatchArray \<Rightarrow> exn + Fact" where
  "uses_per_rest_extractor m =
     (case m_group m 2 of
        None \<Rightarrow> Inl (typeError ''toLowerCase'')
      | Some g2 \<Rightarrow> Inr (UsesFact ''per_rest'' (parseIntOpt (m_group m 1)) (Some (toLowerCase g2))))"

definition recharge_extractor :: "RegExpMatchArray \<Rightarrow> exn + Fact" where
  "recharge_extractor m =
     Inr (RechargeFact ''recharge'' (parseIntOpt (m_group m 1))
            (if truthy (m_group m 2) then parseIntOpt (m_group m 2) else Num 6))"

definition mkPattern ::
  "string \<Rightarrow> RegExp \<Rightarrow> (RegExpMatchArray \<Rightarrow> exn + 'a) \<Rightarrow> int \<Rightarrow> 'a ParsingPattern" where
  "mkPattern nm r ex pr = \<lparr>p_name = nm, p_regex = r, p_extractor = ex, p_priority = pr\<rparr>"

text \<open>The expressions of \<open>initializePatterns\<close>; \<open>BS\<close> is the backslash.\<close>

definition weapon_attack_regex :: RegExp where
  "weapon_attack_regex =
     re (''(?:Melee|Ranged) Weapon Attack: '' @ BS # ''+('' @ BS # ''d+) to hit'')
        ''i''"

definition spell_attack_regex :: RegExp where
  "spell_attack_regex =
     re (''(?:Melee|Ranged) Spell Attack: '' @ BS # ''+('' @ BS # ''d+) to hit'')
        ''i''"

definition damage_with_average_regex :: RegExp where
  "damage_with_average_regex =
     re (''('' @ BS # ''d+) '' @ BS # ''(('' @ BS # ''d+d'' @ BS # ''d+(?:'' @ BS # ''s*['' @ BS # ''+'' @ BS # ''-]'' @ BS # ''s*'' @ BS # ''d+)?)'' @ BS # '') ('' @ BS # ''w+) damage'')
        ''gi''"

definition damage_simple_regex :: RegExp where
  "damage_simple_regex =
     re (''('' @ BS # ''d+d'' @ BS # ''d+(?:'' @ BS # ''s*['' @ BS # ''+'' @ BS # ''-]'' @ BS # ''s*'' @ BS # ''d+)?)'' @ BS # ''s+('' @ BS # ''w+)'' @ BS # ''s+damage'')
        ''gi''"

definition save_dc_regex :: RegExp where
  "save_dc_regex =
     re (''DC ('' @ BS # ''d+) ('' @ BS # ''w+) (?:saving throw|save)'')
        ''gi''"

definition duration_concentration_regex :: RegExp where
  "duration_concentration_regex =
     re (''(?:concentration,?'' @ BS # ''s+)?(?:up to'' @ BS # ''s+)?('' @ BS # ''d+)'' @ BS # ''s+(minute|hour|day)s?'')
        ''i''"

definition duration_rounds_regex :: RegExp where
  "duration_rounds_regex =
     re (''(?:for|lasts?)'' @ BS # ''s+('' @ BS # ''d+)'' @ BS # ''s+rounds?'')
        ''i''"

definition duration_instant_regex :: RegExp where
  "duration_instant_regex =
     re (''instantaneous'')
        ''i''"

definition range_distance_regex :: RegExp where
  "range_distance_regex =
     re (''range ('' @ BS # ''d+)(?:'' @ BS # ''/('' @ BS # ''d+))?'' @ BS # ''s*(?:foot|feet|ft'' @ BS # ''.?)'')
        ''i''"

definition range_touch_regex :: RegExp where
  "range_touch_regex =
     re ('''' @ BS # ''btouch'' @ BS # ''b'')
        ''i''"

definition range_self_regex :: RegExp where
  "range_self_regex =
     re ('''' @ BS # ''bself'' @ BS # ''b'')
        ''i''"

definition area_radius_regex :: RegExp where
  "area_radius_regex =
     re (''('' @ BS # ''d+)(?:-|'' @ BS # ''s)(?:foot|ft'' @ BS # ''.?)'' @ BS # ''s+radius'')
        ''i''"

definition area_cone_regex :: RegExp where
  "area_cone_regex =
     re (''('' @ BS # ''d+)(?:-|'' @ BS # ''s)(?:foot|ft'' @ BS # ''.?)'' @ BS # ''s+cone'')
        ''i''"

definition area_line_regex :: RegExp where
  "area_line_regex =
     re (''('' @ BS # ''d+)(?:-|'' @ BS # ''s)(?:foot|ft'' @ BS # ''.?)'' @ BS # ''s+line'')
        ''i''"

definition activation_action_regex :: RegExp where
  "activation_action_regex =
     re ('''' @ BS # ''b(?:1'' @ BS # ''s+)?action'' @ BS # ''b'')
        ''i''"

definition activation_bonus_regex :: RegExp where
  "activation_bonus_regex =
     re ('''' @ BS # ''bbonus action'' @ BS # ''b'')
        ''i''"

definition activation_reaction_regex :: RegExp where
  "activation_reaction_regex =
     re ('''' @ BS # ''breaction'' @ BS # ''b'')
        ''i''"

definition advantage_regex :: RegExp where
  "advantage_regex =
     re (''advantage on (?:attack rolls?|(?:('' @ BS # ''w+)'' @ BS # ''s+)?(?:ability checks?|checks?|saving throws?|saves?))'')
        ''i''"

definition disadvantage_regex :: RegExp where
  "disadvantage_regex =
     re (''disadvantage on (?:attack rolls?|(?:('' @ BS # ''w+)'' @ BS # ''s+)?(?:ability checks?|checks?|saving throws?|saves?))'')
        ''i''"

definition damage_resistance_regex :: RegExp where
  "damage_resistance_regex =
     re (''(?:resistant?|resistance) to ('' @ BS # ''w+(?:,'' @ BS # ''s*'' @ BS # ''w+)*) damage'')
        ''i''"

definition damage_immunity_regex :: RegExp where
  "damage_immunity_regex =
     re (''(?:immune|immunity) to ('' @ BS # ''w+(?:,'' @ BS # ''s*'' @ BS # ''w+)*) damage'')
        ''i''"

definition uses_per_day_regex :: RegExp where
  "uses_per_day_regex =
     re (''('' @ BS # ''d+)'' @ BS # ''/day'')
        ''i''"

definition uses_per_rest_regex :: RegExp where
  "uses_per_rest_regex =
     re (''('' @ BS # ''d+)'' @ BS # ''/(short|long) rest'')
        ''i''"

definition recharge_regex :: RegExp where
  "recharge_regex =
     re (''(?:Recharge|recharges on) ('' @ BS # ''d+)(?:-('' @ BS # ''d+))?'')
        ''i''"

definition registeredPatterns :: "Fact ParsingPattern list" where
  "registeredPatterns =
     [mkPattern ''weapon_attack'' weapon_attack_regex weapon_attack_extractor 100,
      mkPattern ''spell_attack'' spell_attack_regex spell_attack_extractor 100,
      mkPattern ''damage_with_average'' damage_with_average_regex damage_with_average_extractor 90,
      mkPattern ''damage_simple'' damage_simple_regex damage_simple_extractor 85,
      mkPattern ''save_dc'' save_dc_regex save_dc_extractor 95,
      mkPattern ''duration_concentration'' duration_concentration_regex duration_concentration_extractor 80,
      mkPattern ''duration_rounds'' duration_rounds_regex duration_rounds_extractor 85,
      mkPattern ''duration_instant'' duration_instant_regex duration_instant_extractor 90,
      mkPattern ''range_distance'' range_distance_regex range_distance_extractor 90,
      mkPattern ''range_touch'' range_touch_regex range_touch_extractor 95,
      mkPattern ''range_self'' range_self_regex range_self_extractor 95,
      mkPattern ''area_radius'' area_radius_regex area_radius_extractor 85,
      mkPattern ''area_cone'' area_cone_regex area_cone_extractor 85,
      mkPattern ''area_line'' area_line_regex area_line_extractor 85,
      mkPattern ''activation_action'' activation_action_regex activation_action_extractor 80,
      mkPattern ''activation_bonus'' activation_bonus_regex activation_bonus_extractor 85,
      mkPattern ''activation_reaction'' activation_reaction_regex activation_reaction_extractor 85,
      mkPattern ''advantage'' advantage_regex advantage_extractor 75,
      mkPattern ''disadvantage'' disadvantage_regex disadvantage_extractor 75,
      mkPattern ''damage_resistance'' damage_resistance_regex damage_resistance_extractor 70,
      mkPattern ''damage_immunity'' damage_immunity_regex damage_immunity_extractor 70,
      mkPattern ''uses_per_day'' uses_per_day_regex uses_per_day_extractor 60,
      mkPattern ''uses_per_rest'' uses_per_rest_regex uses_per_rest_extractor 60,
      mkPattern ''recharge'' recharge_regex recharge_extractor 65]"

text \<open>\<open>initializePatterns\<close>: the calls of \<open>addPattern\<close>, in order, on the empty map.\<close>

definition initializePatterns :: "(string \<times> Fact ParsingPattern) list" where
  "initializePatterns = foldl addPattern [] registeredPatterns"

section \<open>Semantic model builder (text-analyzer.ts)\<close>


definition firstActivation ::
  "(string \<times> Fact PatternMatch list) list \<Rightarrow> string \<Rightarrow> (int \<times> nat) option" where
  "firstActivation patterns nm =
     (case map_of patterns nm of
        Some (d # _) \<Rightarrow>
          (case pm_extracted d of ActivationFact t c \<Rightarrow> Some (c, pm_index d) | _ \<Rightarrow> None)
      | _ \<Rightarrow> None)"

text \<open>\<open>TextAnalyzer.extractActivation\<close>.\<close>

definition extractActivation ::
  "(string \<times> Fact PatternMatch list) list \<Rightarrow> ActivationData" where
  "extractActivation patterns =
     (case firstActivation patterns ''activation_reaction'' of
        Some (cost, idx) \<Rightarrow> \<lparr>act_type = A_reaction, act_cost = cost, act_condition = None\<rparr>
      | None \<Rightarrow>
          (case (case firstActivation patterns ''activation_bonus'' of
                   Some (cost, matchIndex) \<Rightarrow>
                     (if matchIndex < 50
                      then Some \<lparr>act_type = A_bonus, act_cost = cost, act_condition = None\<rparr>
                      else None)
                 | None \<Rightarrow> None) of
             Some returned \<Rightarrow> returned
           | None \<Rightarrow>
               (case firstActivation patterns ''activation_action'' of
                  Some (cost, idx) \<Rightarrow>
                    \<lparr>act_type = A_action, act_cost = cost, act_condition = None\<rparr>
                | None \<Rightarrow> \<lparr>act_type = A_action, act_cost = 1, act_condition = None\<rparr>)))"





text \<open>\<open>TextAnalyzer.assessComplexity\<close>: the score is a local variable updated by six
  statements in sequence, then clamped.\<close>

definition assessComplexity :: "('a ParsedAbility_scheme) \<Rightarrow> AutomationComplexity" where
  "assessComplexity ability =
     (let score = 1;
          score = (if length (conditions ability) > 0 then score + 1 else score);
          score = (if length (damage ability) > 1 then score + 1 else score);
          score = (if act_type (activation ability) = A_reaction then 4 else score);
          score = (if length (effects ability) > 1 then score + 1 else score);
          score = (if length (saves ability) > 0 \<and> length (effects ability) > 0
                   then score + 1 else score);
          score = (if res_consumesResource (resources ability) then score + 1 else score)
      in min score 4)"

text \<open>The complexity tier as the specification words it (\<open>b2i\<close> is 1 for a true
  condition): reaction forces the running score to 4, the later increments still
  apply, and the result is clamped to 4.\<close>

definition b2i :: "bool \<Rightarrow> int" where
  "b2i b = (if b then 1 else 0)"

definition spec_complexity_tier :: "('a ParsedAbility_scheme) \<Rightarrow> int" where
  "spec_complexity_tier ability =
     min 4
       ((if act_type (activation ability) = A_reaction then 4
         else 1 + b2i (conditions ability \<noteq> []) + b2i (length (damage ability) > 1))
        + b2i (length (effects ability) > 1)
        + b2i (saves ability \<noteq> [] \<and> effects ability \<noteq> [])
        + b2i (res_consumesResource (resources ability)))"

section \<open>Effect generator (effect-generator.ts)\<close>

text \<open>
  \<open>generateFoundryId\<close>: sixteen characters drawn from \<open>chars\<close>. The state threaded
  through every function that draws is \<open>k\<close>, the number of calls of \<open>Math.random\<close> made
  so far. \<open>charAt\<close> of an index out of range is the empty string.
\<close>

definition chars :: string where
  "chars = ''ABCDEFGHIJKLMNOPQRSTUVWXYZabcdefghijklmnopqrstuvwxyz0123456789''"

definition charAt :: "string \<Rightarrow> nat \<Rightarrow> string" where
  "charAt s i = (if i < length s then [s ! i] else [])"

fun foundryIdLoop :: "RandomSource \<Rightarrow> nat \<Rightarrow> string \<Rightarrow> nat \<Rightarrow> string \<times> nat" where
  "foundryIdLoop rnd 0 ident k = (ident, k)"
| "foundryIdLoop rnd (Suc n) ident k = foundryIdLoop rnd n (ident @ charAt chars (rnd k)) (Suc k)"

definition generateFoundryId :: "RandomSource \<Rightarrow> nat \<Rightarrow> string \<times> nat" where
  "generateFoundryId rnd k = foundryIdLoop rnd 16 [] k"

text \<open>\<open>n.toString()\<close> of an integer.\<close>

function showNat :: "nat \<Rightarrow> string" where
  "showNat n =
     (if n < 10 then [char_of (48 + n)] else showNat (n div 10) @ [char_of (48 + n mod 10)])"
  by pat_completeness auto
termination
  by (relation "measure id") auto

definition showInt :: "int \<Rightarrow> string" where
  "showInt i = (if i < 0 then CHR ''-'' # showNat (nat (- i)) else showNat (nat i))"

record ChangeData =
  ch_key :: string
  ch_mode :: int
  ch_value :: string
  ch_priority :: int

text \<open>The duration of an effect; of the six optional fields only these three are
  ever written.\<close>

record EffectDuration =
  ed_seconds :: "int option"
  ed_rounds :: "int option"
  ed_turns :: "int option"

text \<open>\<open>ActiveEffectData\<close> without its presentation fields \<open>name\<close> and \<open>img\<close> and its
  \<open>flags\<close> bundle.\<close>

record ActiveEffectData =
  ae_id :: string
  ae_changes :: "ChangeData list"
  ae_duration :: EffectDuration
  ae_statuses :: "string list"
  ae_transfer :: bool
  ae_disabled :: bool

definition mkChange :: "string \<Rightarrow> int \<Rightarrow> string \<Rightarrow> ChangeData" where
  "mkChange k md v = \<lparr>ch_key = k, ch_mode = md, ch_value = v, ch_priority = 20\<rparr>"

definition generateChanges :: "EffectData \<Rightarrow> ChangeData list" where
  "generateChanges effect =
     (case eff_type effect of
        E_ac_bonus \<Rightarrow>
          (case eff_value effect of
             Some v \<Rightarrow> [mkChange ''system.attributes.ac.bonus'' 2 (showInt v)]
           | None \<Rightarrow> [])
      | E_ability_modifier \<Rightarrow>
          (case (eff_ability effect, eff_value effect) of
             (Some a, Some v) \<Rightarrow>
               (if a \<noteq> [] then [mkChange (''system.abilities.'' @ a @ ''.value'') 2 (showInt v)]
                else [])
           | _ \<Rightarrow> [])
      | E_damage_resistance \<Rightarrow>
          (case eff_damageTypes effect of
             Some damageTypes \<Rightarrow>
               map (\<lambda>damageType.
                      if eff_amount effect = Some 0
                      then mkChange ''system.traits.di.value'' 0 damageType
                      else mkChange ''system.traits.dr.value'' 0 damageType)
                   damageTypes
           | None \<Rightarrow> [])
      | E_advantage \<Rightarrow> [mkChange ''ATL.light.color'' 5 ''#00ff00'']
      | E_disadvantage \<Rightarrow> [mkChange ''ATL.light.color'' 5 ''#ff0000'']
      | E_condition \<Rightarrow> [])"

text \<open>\<open>mapConditionToStatus\<close>: a lookup of the lower-cased name among the own keys of
  the table (names inherited from \<open>Object.prototype\<close> are not condition names).\<close>

definition conditionMap :: "(string \<times> string) list" where
  "conditionMap =
     [(''blinded'', ''blinded''), (''charmed'', ''charmed''), (''deafened'', ''deafened''),
      (''frightened'', ''frightened''), (''grappled'', ''grappled''),
      (''incapacitated'', ''incapacitated''), (''invisible'', ''invisible''),
      (''paralyzed'', ''paralyzed''), (''petrified'', ''petrified''),
      (''poisoned'', ''poisoned''), (''prone'', ''prone''), (''restrained'', ''restrained''),
      (''stunned'', ''stunned''), (''unconscious'', ''unconscious''),
      (''exhaustion'', ''exhaustion''),
      (''dazed'', ''dazed''), (''bleeding'', ''bleeding''), (''weakened'', ''weakened''),
      (''slowed'', ''slowed'')]"

definition mapConditionToStatus :: "string \<Rightarrow> string option" where
  "mapConditionToStatus conditionName = map_of conditionMap (toLowerCase conditionName)"

definition getConditionChanges :: "string \<Rightarrow> ChangeData list" where
  "getConditionChanges status =
     (if status = ''blinded'' then
        [mkChange ''flags.midi-qol.disadvantage.attack.all'' 5 ''1'',
         mkChange ''flags.midi-qol.grants.advantage.attack.all'' 5 ''1'']
      else if status = ''prone'' then
        [mkChange ''flags.midi-qol.disadvantage.attack.all'' 5 ''1'',
         mkChange ''flags.midi-qol.grants.advantage.attack.mwak'' 5 ''1'']
      else if status = ''restrained'' then
        [mkChange ''flags.midi-qol.disadvantage.attack.all'' 5 ''1'',
         mkChange ''flags.midi-qol.disadvantage.ability.save.dex'' 5 ''1'',
         mkChange ''flags.midi-qol.grants.advantage.attack.all'' 5 ''1'']
      else if status = ''dazed'' then
        [mkChange ''flags.midi-qol.dazed'' 5 ''1'',
         mkChange ''macro.tokenMagic'' 0 ''blur'']
      else [])"

definition mapStatusEffects :: "EffectData \<Rightarrow> string list" where
  "mapStatusEffects effect =
     (case eff_type effect of
        E_condition \<Rightarrow>
          (case mapConditionToStatus (case eff_condition effect of Some c \<Rightarrow> c | None \<Rightarrow> []) of
             Some status \<Rightarrow> [status]
           | None \<Rightarrow> [])
      | _ \<Rightarrow> [])"

definition noDuration :: EffectDuration where
  "noDuration = \<lparr>ed_seconds = None, ed_rounds = None, ed_turns = None\<rparr>"

definition convertDuration :: "('a ParsedAbility_scheme) \<Rightarrow> EffectDuration" where
  "convertDuration ability =
     (let d = duration ability
      in if dur_units d = U_inst then noDuration
         else case dur_value d of
                None \<Rightarrow> noDuration
              | Some v \<Rightarrow>
                  (case dur_units d of
                     U_round \<Rightarrow> noDuration\<lparr>ed_rounds := Some v\<rparr>
                   | U_turn \<Rightarrow> noDuration\<lparr>ed_turns := Some v\<rparr>
                   | U_minute \<Rightarrow> noDuration\<lparr>ed_seconds := Some (v * 60)\<rparr>
                   | U_hour \<Rightarrow> noDuration\<lparr>ed_seconds := Some (v * 3600)\<rparr>
                   | U_day \<Rightarrow> noDuration\<lparr>ed_seconds := Some (v * 86400)\<rparr>
                   | _ \<Rightarrow> noDuration))"

text \<open>\<open>createActiveEffect\<close>: null when the effect yields no change; otherwise the
  identifier is drawn first.\<close>

definition createActiveEffect ::
  "RandomSource \<Rightarrow> EffectData \<Rightarrow> ('a ParsedAbility_scheme) \<Rightarrow> nat \<Rightarrow> ActiveEffectData option \<times> nat" where
  "createActiveEffect rnd effect ability k =
     (let changes = generateChanges effect
      in if length changes = 0 then (None, k)
         else (let (ident, k') = generateFoundryId rnd k
               in (Some \<lparr>ae_id = ident, ae_changes = changes,
                          ae_duration = convertDuration ability,
                          ae_statuses = mapStatusEffects effect,
                          ae_transfer = (atype ability = PASSIVE), ae_disabled = False\<rparr>, k')))"

definition createConditionEffect ::
  "('a ParsedAbility_scheme) \<Rightarrow> string \<Rightarrow> nat \<Rightarrow> ActiveEffectData option" where
  "createConditionEffect ability effectId conditionIndex =
     (if conditionIndex \<ge> length (conditions ability) then None
      else
        (let condition = conditions ability ! conditionIndex
         in if cond_type condition = ''advantage'' \<or> cond_type condition = ''disadvantage''
            then None
            else
              (let status = mapConditionToStatus (cond_type condition);
                   statusEffects = (case status of Some st \<Rightarrow> [st] | None \<Rightarrow> []);
                   changes = (case status of Some st \<Rightarrow> getConditionChanges st | None \<Rightarrow> [])
               in if length statusEffects = 0 \<and> length changes = 0 then None
                  else Some \<lparr>ae_id = effectId, ae_changes = changes,
                             ae_duration =
                               (if cond_saveEnds condition = Some True
                                then \<lparr>ed_seconds = None, ed_rounds = Some 100, ed_turns = Some 0\<rparr>
                                else convertDuration ability),
                             ae_statuses = statusEffects,
                             ae_transfer = False, ae_disabled = False\<rparr>)))"

text \<open>The two \<open>forEach\<close> loops of \<open>generateActiveEffects\<close>, pushing onto \<open>effects\<close>.\<close>

fun forEachEffect ::
  "RandomSource \<Rightarrow> ('a ParsedAbility_scheme) \<Rightarrow> EffectData list \<Rightarrow> ActiveEffectData list \<Rightarrow> nat
   \<Rightarrow> ActiveEffectData list \<times> nat" where
  "forEachEffect rnd ability [] acc k = (acc, k)"
| "forEachEffect rnd ability (effect # rest) acc k =
     (case createActiveEffect rnd effect ability k of
        (Some activeEffect, k') \<Rightarrow> forEachEffect rnd ability rest (acc @ [activeEffect]) k'
      | (None, k') \<Rightarrow> forEachEffect rnd ability rest acc k')"

fun forEachCondition ::
  "RandomSource \<Rightarrow> ('a ParsedAbility_scheme) \<Rightarrow> string list option \<Rightarrow> nat list
   \<Rightarrow> ActiveEffectData list \<Rightarrow> nat \<Rightarrow> ActiveEffectData list \<times> nat" where
  "forEachCondition rnd ability effectIds [] acc k = (acc, k)"
| "forEachCondition rnd ability effectIds (idx # rest) acc k =
     (let given = (case effectIds of
                     Some ids \<Rightarrow> (if idx < length ids \<and> ids ! idx \<noteq> [] then Some (ids ! idx) else None)
                   | None \<Rightarrow> None);
          (effectId, k') = (case given of Some i \<Rightarrow> (i, k) | None \<Rightarrow> generateFoundryId rnd k)
      in case createConditionEffect ability effectId idx of
           Some conditionEffect \<Rightarrow>
             forEachCondition rnd ability effectIds rest (acc @ [conditionEffect]) k'
         | None \<Rightarrow> forEachCondition rnd ability effectIds rest acc k')"

definition generateActiveEffects ::
  "RandomSource \<Rightarrow> ('a ParsedAbility_scheme) \<Rightarrow> string list option \<Rightarrow> nat
   \<Rightarrow> ActiveEffectData list \<times> nat" where
  "generateActiveEffects rnd ability effectIds k =
     (let (acc1, k1) = forEachEffect rnd ability (effects ability) [] k;
          (acc2, k2) = forEachCondition rnd ability effectIds
                         [0 ..< length (conditions ability)] acc1 k1
      in (if atype ability = PASSIVE then map (\<lambda>effect. effect\<lparr>ae_transfer := True\<rparr>) acc2
          else acc2, k2))"

section \<open>Base synthesis engine (rule-engine.ts)\<close>

text \<open>
  An activity keeps the fields that depend on the ability's damage, saves and
  conditions: its identifier and type, the effect references and the damage block.
  The rest of the object literal (activation, consumption, duration, range, target,
  uses, attack, save, visibility, the MidiQOL properties) is copied from the ability
  or constant and is not part of the model; nor are the description, the macros and
  the flag bundle of the artifact.
\<close>

record EffectRef =
  ref_id :: string
  ref_onSave :: "bool option"

record DamagePart =
  part_number :: "number option"
  part_denomination :: "number option"
  part_bonus :: string
  part_types :: "string list"
  part_custom_enabled :: bool
  part_custom_formula :: string
  part_scaling_number :: "int option"

record Activity =
  acty_id :: string
  acty_type :: string
  acty_effects :: "EffectRef list"
  acty_damage_onSave :: "string option"
  acty_damage_parts :: "DamagePart list"

record FoundryItemData =
  item_id :: string
  item_name :: string
  item_type :: string
  item_activities :: "(string \<times> Activity) list"
  item_effects :: "ActiveEffectData list"

record AutomationResult =
  ar_item :: FoundryItemData
  ar_effects :: "ActiveEffectData list"
  ar_complexity :: AutomationComplexity

fun generateEffectIdsLoop ::
  "RandomSource \<Rightarrow> ConditionData list \<Rightarrow> nat \<Rightarrow> string list \<times> nat" where
  "generateEffectIdsLoop rnd [] k = ([], k)"
| "generateEffectIdsLoop rnd (c # cs) k =
     (let (ident, k1) = generateFoundryId rnd k;
          (idents, k2) = generateEffectIdsLoop rnd cs k1
      in (ident # idents, k2))"

definition generateEffectIds ::
  "RandomSource \<Rightarrow> ('a ParsedAbility_scheme) \<Rightarrow> nat \<Rightarrow> string list \<times> nat" where
  "generateEffectIds rnd ability k = generateEffectIdsLoop rnd (conditions ability) k"

definition determineItemType :: "AbilityType \<Rightarrow> string" where
  "determineItemType abilityType =
     (case abilityType of WEAPON_ATTACK \<Rightarrow> ''weapon'' | _ \<Rightarrow> ''feat'')"

definition formula_regex :: RegExp where
  "formula_regex =
     re (''('' @ BS # ''d+)d('' @ BS # ''d+)(?:'' @ BS # ''s*'' @ BS # ''+'' @ BS # ''s*('' @ BS # ''d+))?'') []"

definition generateActivityDamageParts ::
  "RegExpEngine \<Rightarrow> ('a ParsedAbility_scheme) \<Rightarrow> DamagePart list" where
  "generateActivityDamageParts E ability =
     map (\<lambda>dmg.
            case str_match E formula_regex (dmg_formula dmg) of
              Some m \<Rightarrow>
                \<lparr>part_number = Some (parseIntOpt (m_group m 1)),
                 part_denomination = Some (parseIntOpt (m_group m 2)),
                 part_bonus = (case m_group m 3 of Some b \<Rightarrow> b | None \<Rightarrow> []),
                 part_types = [dmg_type dmg],
                 part_custom_enabled = False, part_custom_formula = [],
                 part_scaling_number = None\<rparr>
            | None \<Rightarrow>
                \<lparr>part_number = None, part_denomination = None, part_bonus = [],
                 part_types = [dmg_type dmg],
                 part_custom_enabled = True, part_custom_formula = dmg_formula dmg,
                 part_scaling_number = None\<rparr>)
         (damage ability)"

definition generateAttackActivity ::
  "RegExpEngine \<Rightarrow> ('a ParsedAbility_scheme) \<Rightarrow> string list \<Rightarrow> Activity" where
  "generateAttackActivity E ability effectIds =
     (let effectRefs = map (\<lambda>i. \<lparr>ref_id = i, ref_onSave = None\<rparr>) effectIds
      in \<lparr>acty_id = ''dnd5eactivity000'', acty_type = ''attack'',
          acty_effects = effectRefs,
          acty_damage_onSave = None,
          acty_damage_parts = generateActivityDamageParts E ability\<rparr>)"

definition generateSaveActivity ::
  "RegExpEngine \<Rightarrow> ('a ParsedAbility_scheme) \<Rightarrow> bool \<Rightarrow> string list \<Rightarrow> Activity" where
  "generateSaveActivity E ability isConditionOnly effectIds =
     (let effectRefs = map (\<lambda>i. \<lparr>ref_id = i, ref_onSave = Some False\<rparr>) effectIds
      in \<lparr>acty_id = ''dnd5eactivity100'', acty_type = ''save'',
          acty_effects = effectRefs,
          acty_damage_onSave = Some (if isConditionOnly then ''none'' else ''half''),
          acty_damage_parts =
            (if isConditionOnly
             then [\<lparr>part_number = None, part_denomination = None, part_bonus = [],
                     part_types = (if length (damage ability) > 0
                                   then [dmg_type (damage ability ! 0)] else []),
                     part_custom_enabled = False, part_custom_formula = [],
                     part_scaling_number = Some 1\<rparr>]
             else generateActivityDamageParts E ability)\<rparr>)"

definition generateActivities ::
  "RegExpEngine \<Rightarrow> ('a ParsedAbility_scheme) \<Rightarrow> string list \<Rightarrow> (string \<times> Activity) list" where
  "generateActivities E ability effectIds =
     (let activities = [];
          hasAttack = (atype ability = SPELL_ATTACK \<or> atype ability = WEAPON_ATTACK);
          hasSave = (length (saves ability) > 0);
          hasCondition = (length (conditions ability) > 0);
          activities =
            (if hasAttack
             then map_set ''dnd5eactivity000'' (generateAttackActivity E ability effectIds) activities
             else activities);
          activities =
            (if hasSave
             then (let isConditionOnly = (hasAttack \<and> hasCondition)
                   in map_set ''dnd5eactivity100''
                        (generateSaveActivity E ability isConditionOnly effectIds) activities)
             else activities)
      in activities)"

definition generateItemData ::
  "RegExpEngine \<Rightarrow> RandomSource \<Rightarrow> ('a ParsedAbility_scheme) \<Rightarrow> string list \<Rightarrow> nat
   \<Rightarrow> FoundryItemData \<times> nat" where
  "generateItemData E rnd ability effectIds k =
     (let itemType = determineItemType (atype ability);
          (ident, k') = generateFoundryId rnd k
      in (\<lparr>item_id = ident, item_name = name ability, item_type = itemType,
           item_activities = generateActivities E ability effectIds,
           item_effects = []\<rparr>, k'))"

definition generateAutomation ::
  "RegExpEngine \<Rightarrow> RandomSource \<Rightarrow> ('a ParsedAbility_scheme) \<Rightarrow> nat \<Rightarrow> AutomationResult \<times> nat" where
  "generateAutomation E rnd ability k =
     (let (effectIds, k1) = generateEffectIds rnd ability k;
          (effs, k2) = generateActiveEffects rnd ability (Some effectIds) k1;
          (item, k3) = generateItemData E rnd ability effectIds k2
      in (\<lparr>ar_item = item, ar_effects = effs, ar_complexity = complexity ability\<rparr>, k3))"

section \<open>Enhancement passes (complex-ability-parser.ts, phase2-converter.ts)\<close>

record EffectStep =
  step :: int
  action :: string
  step_condition :: "string option"
  timing :: string
  linkedTo :: "string option"
  endCondition :: "string option"

record LinkedEffect =
  trigger :: string
  sequence :: "EffectStep list"

datatype StrategyPrimary = basic | workflow_integration | multi_step_workflow | reaction_based

record AutomationStrategy =
  primary :: StrategyPrimary
  hooks :: "string list"
  macros :: "string list"
  strategy_effects :: "string list"

text \<open>\<open>EnhancedAbilityData extends ParsedAbility\<close>; its \<open>professionalFlags\<close> bundle is
  left out.\<close>

record EnhancedAbilityData = ParsedAbility +
  linkedEffects :: "LinkedEffect list"
  automation :: AutomationStrategy

text \<open>A capture group inside a template literal: \<open>undefined\<close> prints as such.\<close>

definition templ :: "string option \<Rightarrow> string" where
  "templ g = (case g of Some s \<Rightarrow> s | None \<Rightarrow> ''undefined'')"

definition movement_regex :: RegExp where
  "movement_regex =
     re (''(?:leaps?|jumps?) at least ('' @ BS # ''d+) (?:feet|ft'' @ BS # ''.?) (?:toward|towards?) (?:a )?target'')
        ''i''"

definition sight_regex :: RegExp where
  "sight_regex = re ''can see|within (?:sight|line of sight)'' ''i''"

definition takes_damage_regex :: RegExp where
  "takes_damage_regex = re ''(?:when|if) (?:the owlbear|you) takes? damage'' ''i''"

definition recharge_paren_regex :: RegExp where
  "recharge_paren_regex =
     re (BS # ''(Recharge ('' @ BS # ''d+)(?:-('' @ BS # ''d+))?'' @ BS # '')'') ''i''"

definition hits_then_save_regex :: RegExp where
  "hits_then_save_regex = re ''hits? them with.*then.*saving throw'' ''i''"

definition recharge_word_regex :: RegExp where
  "recharge_word_regex = re (''recharge '' @ BS # ''d+'') ''i''"

definition parseRequirements :: "RegExpEngine \<Rightarrow> string \<Rightarrow> AbilityRequirement list" where
  "parseRequirements E text =
     (let reqs = [];
          reqs = (case str_match E movement_regex text of
                    Some movementMatch \<Rightarrow>
                      reqs @ [\<lparr>req_type = ''movement'',
                                req_condition = ''leap_distance >= '' @ templ (m_group movementMatch 1),
                                req_description = ''Must leap at least '' @ templ (m_group movementMatch 1)
                                                    @ '' feet toward target'',
                                req_automationHook = ''preAttackRoll''\<rparr>]
                  | None \<Rightarrow> reqs);
          reqs = (case str_match E sight_regex text of
                    Some m \<Rightarrow>
                      reqs @ [\<lparr>req_type = ''visibility'', req_condition = ''line_of_sight'',
                                req_description = ''Must have line of sight to target'',
                                req_automationHook = ''preTargeting''\<rparr>]
                  | None \<Rightarrow> reqs);
          reqs = (case str_match E takes_damage_regex text of
                    Some healthMatch \<Rightarrow>
                      reqs @ [\<lparr>req_type = ''trigger'', req_condition = ''takes_damage'',
                                req_description = ''Triggered when taking damage'',
                                req_automationHook = ''onDamaged''\<rparr>]
                  | None \<Rightarrow> reqs);
          reqs = (case str_match E recharge_paren_regex text of
                    Some rechargeMatch \<Rightarrow>
                      (let lo = templ (m_group rechargeMatch 1);
                           hi = (if truthy (m_group rechargeMatch 2)
                                 then templ (m_group rechargeMatch 2) else ''6'')
                       in reqs @ [\<lparr>req_type = ''recharge'',
                                   req_condition = ''recharge_'' @ lo @ ''_'' @ hi,
                                   req_description = ''Recharges on '' @ lo @ ''-'' @ hi,
                                   req_automationHook = ''preItemRoll''\<rparr>])
                  | None \<Rightarrow> reqs)
      in reqs)"

definition mkStep ::
  "int \<Rightarrow> string \<Rightarrow> string option \<Rightarrow> string \<Rightarrow> string option \<Rightarrow> string option \<Rightarrow> EffectStep" where
  "mkStep n a c t l e =
     \<lparr>step = n, action = a, step_condition = c, timing = t, linkedTo = l, endCondition = e\<rparr>"

definition parseLinkedEffects :: "RegExpEngine \<Rightarrow> string \<Rightarrow> LinkedEffect list" where
  "parseLinkedEffects E text =
     (let les = [];
          les = (if str_includes text ''grappled'' \<and> str_includes text ''restrained''
                    \<and> str_includes text ''damage at the start''
                 then les @ [\<lparr>trigger = ''save_failure'',
                              sequence =
                                [mkStep 1 ''apply_condition'' (Some ''grappled'') ''immediate'' None None,
                                 mkStep 2 ''apply_condition'' (Some ''restrained'') ''immediate''
                                   (Some ''grappled'') None,
                                 mkStep 3 ''ongoing_damage'' None ''start_of_turn''
                                   (Some ''grappled'') (Some ''grapple_ends'')]\<rparr>]
                 else les);
          les = (case str_match E hits_then_save_regex text of
                   Some m \<Rightarrow>
                     les @ [\<lparr>trigger = ''successful_attack'',
                              sequence =
                                [mkStep 1 ''validate_requirement'' (Some ''movement_distance'')
                                   ''pre_attack'' None None,
                                 mkStep 2 ''force_save'' None ''post_hit''
                                   (Some ''movement_validation'') None,
                                 mkStep 3 ''apply_condition'' (Some ''prone'')
                                   ''post_save_failure'' None None]\<rparr>]
                 | None \<Rightarrow> les)
      in les)"

definition determineAutomationStrategy ::
  "RegExpEngine \<Rightarrow> ('a ParsedAbility_scheme) \<Rightarrow> AutomationStrategy" where
  "determineAutomationStrategy E ability =
     (let strategy = \<lparr>primary = workflow_integration, hooks = [], macros = [],
                       strategy_effects = []\<rparr>;
          strategy =
            (if str_includes (raw ability) ''then'' \<or> str_includes (raw ability) ''until''
             then strategy\<lparr>primary := multi_step_workflow,
                           hooks := hooks strategy
                             @ [''preItemRoll'', ''postAttackRoll'', ''postSave'', ''preActiveEffects'']\<rparr>
             else strategy);
          strategy =
            (case str_match E recharge_word_regex (raw ability) of
               Some m \<Rightarrow> strategy\<lparr>hooks := hooks strategy @ [''preItemRoll'', ''postItemRoll''],
                                    macros := macros strategy @ [''recharge_management'']\<rparr>
             | None \<Rightarrow> strategy);
          strategy =
            (if atype ability = REACTION
             then strategy\<lparr>hooks := hooks strategy @ [''isDamaged'', ''preAttackRoll''],
                           macros := macros strategy @ [''reaction_trigger'']\<rparr>
             else strategy);
          strategy =
            (if str_includes (raw ability) ''at the start of each'' \<or> str_includes (raw ability) ''until''
             then strategy\<lparr>hooks := hooks strategy @ [''turnStart'', ''combatStart''],
                           strategy_effects := strategy_effects strategy @ [''persistent_tracking'']\<rparr>
             else strategy)
      in strategy)"

definition assessEnhancedComplexity ::
  "('a EnhancedAbilityData_scheme) \<Rightarrow> AutomationComplexity" where
  "assessEnhancedComplexity enhanced =
     (let c = complexity enhanced;
          c = (if length (requirements enhanced) > 0 then max c MODERATE else c);
          c = (if length (linkedEffects enhanced) > 0 then max c COMPLEX else c);
          c = (if atype enhanced = REACTION then max c REACTION_TIER else c);
          c = (if primary (automation enhanced) = multi_step_workflow then max c COMPLEX else c)
      in c)"

definition parseComplexAbility :: "RegExpEngine \<Rightarrow> ParsedAbility \<Rightarrow> EnhancedAbilityData" where
  "parseComplexAbility E ability =
     (let enhanced =
            \<lparr>name = name ability, raw = raw ability, atype = atype ability,
             attackType = attackType ability, attackBonus = attackBonus ability,
             activation = activation ability, target = target ability,
             damage = damage ability, saves = saves ability, effects = effects ability,
             conditions = conditions ability, resources = resources ability,
             duration = duration ability, range = range ability,
             complexity = complexity ability,
             requirements = parseRequirements E (raw ability),
             linkedEffects = parseLinkedEffects E (raw ability),
             automation = determineAutomationStrategy E ability\<rparr>
      in enhanced\<lparr>complexity := assessEnhancedComplexity enhanced\<rparr>)"

record SystemFlags =
  hasConditions :: bool
  hasMacros :: bool
  hasRecharge :: bool
  isReaction :: bool
  hasOngoing :: bool

definition calculateFinalComplexity ::
  "('a EnhancedAbilityData_scheme) \<Rightarrow> SystemFlags \<Rightarrow> AutomationComplexity" where
  "calculateFinalComplexity analysis systemFlags =
     (let c = complexity analysis;
          c = (if hasConditions systemFlags then max c MODERATE else c);
          c = (if hasMacros systemFlags \<or> hasOngoing systemFlags then max c COMPLEX else c);
          c = (if isReaction systemFlags then max c REACTION_TIER else c);
          c = (if length (requirements analysis) > 0 \<or> length (linkedEffects analysis) > 0
               then max c COMPLEX else c)
      in c)"

text \<open>\<open>calculateAutomationCoverage\<close>: two counters and one division; the quotient of
  two equal non-zero integers is exactly 1 in floating point as in the reals.\<close>

definition calculateAutomationCoverage :: "('a EnhancedAbilityData_scheme) \<Rightarrow> real" where
  "calculateAutomationCoverage analysis =
     (let totalFeatures = (0::nat); automatedFeatures = (0::nat);
          (totalFeatures, automatedFeatures) =
             (if length (damage analysis) > 0
              then (totalFeatures + length (damage analysis),
                    automatedFeatures + length (damage analysis))
              else (totalFeatures, automatedFeatures));
          (totalFeatures, automatedFeatures) =
             (if length (saves analysis) > 0
              then (totalFeatures + length (saves analysis),
                    automatedFeatures + length (saves analysis))
              else (totalFeatures, automatedFeatures));
          (totalFeatures, automatedFeatures) =
             (if length (effects analysis) > 0
              then (totalFeatures + length (effects analysis),
                    automatedFeatures + length (effects analysis))
              else (totalFeatures, automatedFeatures));
          (totalFeatures, automatedFeatures) =
             (if length (conditions analysis) > 0
              then (totalFeatures + length (conditions analysis),
                    automatedFeatures + length (conditions analysis))
              else (totalFeatures, automatedFeatures));
          (totalFeatures, automatedFeatures) =
             (if length (requirements analysis) > 0
              then (totalFeatures + length (requirements analysis),
                    automatedFeatures + length (requirements analysis))
              else (totalFeatures, automatedFeatures));
          (totalFeatures, automatedFeatures) =
             (if length (linkedEffects analysis) > 0
              then (totalFeatures + length (linkedEffects analysis),
                    automatedFeatures + length (linkedEffects analysis))
              else (totalFeatures, automatedFeatures))
      in if totalFeatures > 0 then real automatedFeatures / real totalFeatures else 1)"

record GradeMetrics =
  flagQuality :: int
  macroQuality :: int
  automationCoverage :: real
  errorHandling :: bool
  performanceOptimization :: bool

definition assessProfessionalGrade :: "FoundryItemData \<Rightarrow> GradeMetrics \<Rightarrow> int" where
  "assessProfessionalGrade item metrics =
     (let grade = 0;
          grade = (if flagQuality metrics \<ge> 4 then grade + 3
                   else if flagQuality metrics \<ge> 2 then grade + 2
                   else if flagQuality metrics \<ge> 1 then grade + 1 else grade);
          grade = (if macroQuality metrics \<ge> 3 then grade + 2
                   else if macroQuality metrics \<ge> 1 then grade + 1 else grade);
          grade = (if automationCoverage metrics \<ge> 9 / 10 then grade + 3
                   else if automationCoverage metrics \<ge> 7 / 10 then grade + 2
                   else if automationCoverage metrics \<ge> 5 / 10 then grade + 1 else grade);
          grade = (if errorHandling metrics then grade + 1 else grade);
          grade = (if performanceOptimization metrics then grade + 1 else grade)
      in min grade 10)"

text \<open>The grade without its coverage component: what the flag, macro, error-handling
  and performance steps add.\<close>

definition gradeWithoutCoverage :: "GradeMetrics \<Rightarrow> int" where
  "gradeWithoutCoverage metrics =
     (if flagQuality metrics \<ge> 4 then 3 else if flagQuality metrics \<ge> 2 then 2
      else if flagQuality metrics \<ge> 1 then 1 else 0)
     + (if macroQuality metrics \<ge> 3 then 2 else if macroQuality metrics \<ge> 1 then 1 else 0)
     + b2i (errorHandling metrics) + b2i (performanceOptimization metrics)"

subsection \<open>The orchestrator\<close>

record AbilityDescription =
  desc_raw :: string
  desc_parsed :: ParsedAbility

record Phase2EnhancementResult =
  enhancedItem :: FoundryItemData
  finalComplexity :: AutomationComplexity
  professionalGrade :: int
  systemsApplied :: "string list"

text \<open>The \<open>phase2Enhancement\<close> record of a result, without the macro, effect and flag
  bundles that the passes hand through.\<close>

record Phase2Enhancement =
  applied :: bool
  reason :: "string option"
  enh_complexity :: "AutomationComplexity option"
  enh_professionalGrade :: "int option"
  automationSystems :: "string list option"

record BaseResult =
  success :: bool
  original_raw :: string
  original_parsed :: "ParsedAbility option"
  base_automation :: "AutomationResult option"
  foundryItem :: "FoundryItemData option"
  parsedAbility :: "ParsedAbility option"

record EnhancedConversionResult = BaseResult +
  error :: "string option"
  phase2Enhancement :: Phase2Enhancement

text \<open>\<open>{...baseResult, phase2Enhancement: p}\<close>.\<close>

definition withEnhancement :: "BaseResult \<Rightarrow> Phase2Enhancement \<Rightarrow> EnhancedConversionResult" where
  "withEnhancement baseResult p =
     \<lparr>success = success baseResult, original_raw = original_raw baseResult,
      original_parsed = original_parsed baseResult,
      base_automation = base_automation baseResult,
      foundryItem = foundryItem baseResult, parsedAbility = parsedAbility baseResult,
      error = None, phase2Enhancement = p\<rparr>"

definition notApplied :: "string \<Rightarrow> Phase2Enhancement" where
  "notApplied r =
     \<lparr>applied = False, reason = Some r, enh_complexity = None, enh_professionalGrade = None,
      automationSystems = None\<rparr>"

text \<open>
  \<open>Phase2Converter.convertAbility\<close>. The text analyzer and the enhancement pipeline
  (\<open>applyPhase2Enhancement\<close>, which integrates on a deep clone of the item it is
  given) are the two collaborators whose throws the method catches; they are
  parameters, functions that return a value or the thrown one. The rule engine is
  the one above.
\<close>

definition convertAbility ::
  "(string \<Rightarrow> exn + AbilityDescription) \<Rightarrow> RegExpEngine \<Rightarrow> RandomSource \<Rightarrow> nat
   \<Rightarrow> (ParsedAbility \<Rightarrow> FoundryItemData \<Rightarrow> exn + Phase2EnhancementResult)
   \<Rightarrow> string \<Rightarrow> EnhancedConversionResult" where
  "convertAbility analyzeText E rnd k applyPhase2Enhancement abilityText =
     (case analyzeText abilityText of
        Inl err \<Rightarrow>
          \<lparr>success = False, original_raw = abilityText, original_parsed = None,
           base_automation = None, foundryItem = None, parsedAbility = None,
           error = Some (case err of ErrorObject msg \<Rightarrow> msg
                         | ThrownValue v \<Rightarrow> ''Base conversion error''),
           phase2Enhancement = notApplied ''Base analysis failed''\<rparr>
      | Inr abilityDescription \<Rightarrow>
          (let (autom, k') = generateAutomation E rnd (desc_parsed abilityDescription) k;
               baseResult =
                 \<lparr>success = True, original_raw = desc_raw abilityDescription,
                  original_parsed = Some (desc_parsed abilityDescription),
                  base_automation = Some autom,
                  foundryItem = Some ((ar_item autom)\<lparr>item_effects := ar_effects autom\<rparr>),
                  parsedAbility = Some (desc_parsed abilityDescription)\<rparr>
           in case (success baseResult, parsedAbility baseResult, foundryItem baseResult) of
                (True, Some parsed, Some item) \<Rightarrow>
                  (case applyPhase2Enhancement parsed item of
                     Inr enhancedResult \<Rightarrow>
                       (withEnhancement baseResult
                          \<lparr>applied = True, reason = None,
                           enh_complexity = Some (finalComplexity enhancedResult),
                           enh_professionalGrade = Some (professionalGrade enhancedResult),
                           automationSystems = Some (systemsApplied enhancedResult)\<rparr>)
                         \<lparr>foundryItem := Some (enhancedItem enhancedResult)\<rparr>
                   | Inl err \<Rightarrow>
                       withEnhancement baseResult
                         (notApplied (''Enhancement failed: ''
                            @ (case err of ErrorObject msg \<Rightarrow> msg | ThrownValue v \<Rightarrow> v))))
              | _ \<Rightarrow> withEnhancement baseResult (notApplied ''Base conversion failed'')))"

section \<open>Notions used to state the properties\<close>

text \<open>The matches of a scan that the loop of \<open>extractPatterns\<close> gets to see: all of
  them with the \<open>g\<close> flag, the first only without it.\<close>

definition scannedMatches :: "'a ParsingPattern \<Rightarrow> RegExpMatchArray list \<Rightarrow> RegExpMatchArray list" where
  "scannedMatches pattern ms = (if re_global (p_regex pattern) then ms else take 1 ms)"

text \<open>The entries of the matches on which the extractor returns, in order; and the
  warnings of the matches on which it throws.\<close>

definition keptMatches :: "'a ParsingPattern \<Rightarrow> RegExpMatchArray list \<Rightarrow> 'a PatternMatch list" where
  "keptMatches pattern ms =
     List.map_filter
       (\<lambda>m. case p_extractor pattern m of
               Inr extracted \<Rightarrow>
                 Some \<lparr>pm_extracted = extracted, pm_matchText = m_whole m, pm_index = m_index m\<rparr>
             | Inl e \<Rightarrow> None)
       (scannedMatches pattern ms)"

definition warnedMatches :: "string \<Rightarrow> 'a ParsingPattern \<Rightarrow> RegExpMatchArray list \<Rightarrow> Console" where
  "warnedMatches nm pattern ms =
     List.map_filter
       (\<lambda>m. case p_extractor pattern m of
               Inr extracted \<Rightarrow> None
             | Inl e \<Rightarrow> Some (''Error extracting pattern '' @ nm @ '':'', e))
       (scannedMatches pattern ms)"





text \<open>The effect identifiers an artifact's activities refer to, activity by activity.\<close>

definition referencedEffectIds :: "AutomationResult \<Rightarrow> string list list" where
  "referencedEffectIds r =
     map (\<lambda>(nm, a). map ref_id (acty_effects a)) (item_activities (ar_item r))"

text \<open>The base artifact of a conversion: the item of the base synthesis with the
  effect list attached (\<open>{...automation.item, effects: automation.effects, ...}\<close>).\<close>

definition baseArtifact ::
  "RegExpEngine \<Rightarrow> RandomSource \<Rightarrow> nat \<Rightarrow> ParsedAbility \<Rightarrow> FoundryItemData" where
  "baseArtifact E rnd k parsed =
     (let autom = fst (generateAutomation E rnd parsed k)
      in (ar_item autom)\<lparr>item_effects := ar_effects autom\<rparr>)"

definition thrownMessage :: "exn \<Rightarrow> string" where
  "thrownMessage err = (case err of ErrorObject msg \<Rightarrow> msg | ThrownValue v \<Rightarrow> v)"

section \<open>Sample inputs\<close>

text \<open>
  Two ability texts and a damage formula, and what the host's engine finds in them
  for the expressions read below (the other expressions are not read on them).
\<close>

definition sampleDamageText :: string where
  "sampleDamageText =
     ''Hit: 8 (1d8 + 4) slashing damage plus 1d6 fire damage and 1d6 cold damage.''"

definition sampleDazeText :: string where
  "sampleDazeText =
     ''Melee Weapon Attack: +5 to hit. A dazed creature can take an action, a bonus action, or move.''"

definition mkMatch :: "string \<Rightarrow> string option list \<Rightarrow> nat \<Rightarrow> RegExpMatchArray" where
  "mkMatch w gs i = \<lparr>m_whole = w, m_groups = gs, m_index = i\<rparr>"

definition sampleEngine :: RegExpEngine where
  "sampleEngine r t =
     (if t = sampleDamageText \<and> r = damage_with_average_regex then
        [mkMatch ''8 (1d8 + 4) slashing damage'' [Some ''8'', Some ''1d8 + 4'', Some ''slashing''] 5]
      else if t = sampleDamageText \<and> r = damage_simple_regex then
        [mkMatch ''1d6 fire damage'' [Some ''1d6'', Some ''fire''] 38,
         mkMatch ''1d6 cold damage'' [Some ''1d6'', Some ''cold''] 58]
      else if t = sampleDazeText \<and> r = weapon_attack_regex then
        [mkMatch ''Melee Weapon Attack: +5 to hit'' [Some ''5''] 0]
      else if t = sampleDazeText \<and> r = activation_action_regex then
        [mkMatch ''action'' [] 61, mkMatch ''action'' [] 77]
      else if t = sampleDazeText \<and> r = activation_bonus_regex then
        [mkMatch ''bonus action'' [] 71]
      else if t = ''1d8+3'' \<and> r = formula_regex then
        [mkMatch ''1d8+3'' [Some ''1'', Some ''8'', Some ''3''] 0]
      else [])"

text \<open>A registry of two patterns, the first with an extractor that throws on a match
  at index 0, and an engine for it.\<close>

definition sampleRegistry :: "(string \<times> nat ParsingPattern) list" where
  "sampleRegistry =
     [(''first'', mkPattern ''first'' (re ''a'' ''g'')
                    (\<lambda>m. if m_index m = 0 then Inl (ErrorObject ''no fact at the start'')
                         else Inr (m_index m)) 1),
      (''second'', mkPattern ''second'' (re ''X'' [])
                    (\<lambda>m. Inr (m_index m)) 2)]"

definition sampleScan :: RegExpEngine where
  "sampleScan r t =
     (if t = ''aXa'' \<and> r = re ''a'' ''g'' then [mkMatch ''a'' [] 0, mkMatch ''a'' [] 2]
      else if t = ''aXa'' \<and> r = re ''X'' [] then [mkMatch ''X'' [] 1]
      else [])"

text \<open>A weapon attack that also grants advantage, as the analyzer parses
  \<open>Melee Weapon Attack: +5 to hit ... advantage on attack rolls\<close>; and the same attack
  with a save and the prone condition.\<close>

definition sampleAbility :: ParsedAbility where
  "sampleAbility =
     \<lparr>name = ''Melee Weapon Attack'', raw = ''Melee Weapon Attack: +5 to hit. The creature has advantage on attack rolls.'',
      atype = WEAPON_ATTACK, attackType = Some mwak, attackBonus = Some 5,
      activation = \<lparr>act_type = A_action, act_cost = 1, act_condition = None\<rparr>,
      target = \<lparr>tgt_value = Some 1, tgt_type = T_creature, tgt_width = None, tgt_units = Some ''any''\<rparr>,
      damage = [], saves = [], effects = [],
      conditions = [\<lparr>cond_type = ''advantage'', cond_name = ''Advantage'',
                      cond_value = CV_string ''all'', cond_condition = None,
                      cond_saveEnds = None, cond_saveEndsTiming = None\<rparr>],
      resources = \<lparr>res_consumesResource = False, res_type = None, res_amount = None,
                    res_consumed = None, res_recharge = None\<rparr>,
      duration = \<lparr>dur_value = None, dur_units = U_inst, dur_concentration = None\<rparr>,
      range = \<lparr>rng_value = Some 5, rng_long = None, rng_units = R_ft\<rparr>,
      complexity = 2, requirements = []\<rparr>"

definition sampleProneAbility :: ParsedAbility where
  "sampleProneAbility =
     sampleAbility
       \<lparr>raw := ''Melee Weapon Attack: +5 to hit. Hit: 7 (1d8 + 3) bludgeoning damage. DC 13 Strength saving throw or be prone.'',
        damage := [\<lparr>dmg_formula = ''1d8+3'', dmg_type = ''bludgeoning'', dmg_versatile = None,
                     dmg_conditional = Some False, dmg_condition = None\<rparr>],
        saves := [\<lparr>save_ability = ''str'', save_dc = Some 13, save_scaling = S_flat\<rparr>],
        conditions := [\<lparr>cond_type = ''prone'', cond_name = ''prone'',
                         cond_value = CV_bool True, cond_condition = None,
                         cond_saveEnds = Some False, cond_saveEndsTiming = Some start_of_turn\<rparr>]\<rparr>"

text \<open>A save-based ability with the same damage, save and condition.\<close>

definition sampleSaveAbility :: ParsedAbility where
  "sampleSaveAbility =
     sampleProneAbility
       \<lparr>name := ''DC 13 Strength saving throw or be prone'',
        raw := ''DC 13 Strength saving throw or be prone. 7 (1d8 + 3) bludgeoning damage.'',
        atype := SAVE_ABILITY, attackType := None, attackBonus := None\<rparr>"

text \<open>Two random sources: every draw 0, every draw 1.\<close>

definition drawsA :: RandomSource where
  "drawsA k = 0"


text \<open>An engine that finds nothing.\<close>

definition noMatches :: RegExpEngine where
  "noMatches r t = []"

text \<open>An analyzer that parses every text to the sample ability, and an enhancement
  pipeline that throws.\<close>

definition sampleAnalyzer :: "string \<Rightarrow> exn + AbilityDescription" where
  "sampleAnalyzer t = Inr \<lparr>desc_raw = t, desc_parsed = sampleAbility\<rparr>"

definition failingEnhancement :: "ParsedAbility \<Rightarrow> FoundryItemData \<Rightarrow> exn + Phase2EnhancementResult" where
  "failingEnhancement parsed item = Inl (ErrorObject ''pass failed'')"

section \<open>Properties\<close>

subsection \<open>The extraction loop in closed form\<close>

lemma map_of_map_set: "map_of (map_set k v m) = (map_of m)(k \<mapsto> v)"
  by (induction m) (auto simp: fun_eq_iff)

lemma whileExec_eq:
  "whileExec nm p ms acc con = (acc @ keptMatches p ms, con @ warnedMatches nm p ms)"
proof (cases "re_global (p_regex p)")
  case True
  then show ?thesis
    by (induction ms arbitrary: acc con)
       (auto simp: keptMatches_def warnedMatches_def scannedMatches_def List.map_filter_simps Let_def
             split: sum.splits)
next
  case False
  then show ?thesis
    by (cases ms)
       (auto simp: keptMatches_def warnedMatches_def scannedMatches_def List.map_filter_simps Let_def
             split: sum.splits)
qed

lemma forPatterns_lookup:
  "distinct (map fst sps) \<Longrightarrow>
   map_of (fst (forPatterns E text sps results con)) nm =
     (case map_of sps nm of
        Some p \<Rightarrow> (if keptMatches p (E (p_regex p) text) = [] then map_of results nm
                   else Some (keptMatches p (E (p_regex p) text)))
      | None \<Rightarrow> map_of results nm)"
proof (induction sps arbitrary: results con)
  case Nil
  then show ?case by simp
next
  case (Cons a sps)
  obtain n p where a: "a = (n, p)" by (cases a)
  from Cons.prems a have nin: "n \<notin> fst ` set sps" and d: "distinct (map fst sps)" by auto
  from nin have none: "map_of sps n = None" by (simp add: map_of_eq_None_iff)
  show ?case
    using Cons.IH[OF d] none
    by (auto simp: a whileExec_eq map_of_map_set split: option.splits)
qed

lemma forPatterns_console:
  "snd (forPatterns E text sps results con) =
     con @ concat (map (\<lambda>(nm, p). warnedMatches nm p (E (p_regex p) text)) sps)"
  by (induction sps arbitrary: results con) (auto simp: whileExec_eq)

lemma sortByPriority_set: "set (sortByPriority ps) = set ps"
  by (simp add: sortByPriority_def)

lemma sortByPriority_distinct:
  "distinct (map fst ps) \<Longrightarrow> distinct (map fst (sortByPriority ps))"
  by (simp add: sortByPriority_def distinct_map)

lemma sortByPriority_map_of:
  assumes "distinct (map fst ps)"
  shows "map_of (sortByPriority ps) = map_of ps"
  using assms sortByPriority_distinct[OF assms] sortByPriority_set[of ps]
  by (simp add: map_of_inject_set)

lemma extractPatterns_lookup:
  assumes "distinct (map fst ps)"
  shows "map_of (fst (extractPatterns E ps text)) nm =
     (case map_of ps nm of
        Some p \<Rightarrow> (if keptMatches p (E (p_regex p) text) = [] then None
                   else Some (keptMatches p (E (p_regex p) text)))
      | None \<Rightarrow> None)"
  unfolding extractPatterns_def
  by (simp add: forPatterns_lookup[OF sortByPriority_distinct[OF assms]] sortByPriority_map_of[OF assms]
           split: option.splits)


lemma initializePatterns_distinct: "distinct (map fst initializePatterns)"
  by (simp add: initializePatterns_def registeredPatterns_def addPattern_def mkPattern_def)

lemma extractPatterns_console:
  "snd (extractPatterns E ps text) =
     concat (map (\<lambda>(nm, p). warnedMatches nm p (E (p_regex p) text)) (sortByPriority ps))"
  by (simp add: extractPatterns_def forPatterns_console)

subsection \<open>The damage loops in closed form\<close>










subsection \<open>The activation reads in closed form\<close>

lemma activation_lookups:
  "map_of initializePatterns ''activation_reaction''
     = Some (mkPattern ''activation_reaction'' activation_reaction_regex activation_reaction_extractor 85)"
  "map_of initializePatterns ''activation_bonus''
     = Some (mkPattern ''activation_bonus'' activation_bonus_regex activation_bonus_extractor 85)"
  "map_of initializePatterns ''activation_action''
     = Some (mkPattern ''activation_action'' activation_action_regex activation_action_extractor 80)"
  by (simp_all add: initializePatterns_def registeredPatterns_def addPattern_def mkPattern_def)

lemma firstActivation_constant:
  assumes lk: "map_of initializePatterns nm = Some (mkPattern nm r (\<lambda>m. Inr (ActivationFact t c)) pr)"
    and ng: "\<not> re_global r"
  shows "firstActivation (fst (extractPatterns E initializePatterns text)) nm
           = (case E r text of [] \<Rightarrow> None | m # _ \<Rightarrow> Some (c, m_index m))"
proof -
  let ?p = "mkPattern nm r (\<lambda>m. Inr (ActivationFact t c)) pr"
  have k: "keptMatches ?p ms
             = (case ms of [] \<Rightarrow> []
                | m # _ \<Rightarrow> [\<lparr>pm_extracted = ActivationFact t c, pm_matchText = m_whole m,
                              pm_index = m_index m\<rparr>])" for ms
    using ng
    by (cases ms)
       (simp_all add: keptMatches_def scannedMatches_def mkPattern_def List.map_filter_simps)
  have "map_of (fst (extractPatterns E initializePatterns text)) nm
          = (if keptMatches ?p (E r text) = [] then None else Some (keptMatches ?p (E r text)))"
    by (simp add: extractPatterns_lookup[OF initializePatterns_distinct] lk)
       (simp add: mkPattern_def)
  then show ?thesis
    unfolding firstActivation_def k
    by (cases "E r text") simp_all
qed

lemma firstActivation_registry:
  "firstActivation (fst (extractPatterns E initializePatterns text)) ''activation_reaction''
     = (case E activation_reaction_regex text of [] \<Rightarrow> None | m # _ \<Rightarrow> Some (1, m_index m))"
  "firstActivation (fst (extractPatterns E initializePatterns text)) ''activation_bonus''
     = (case E activation_bonus_regex text of [] \<Rightarrow> None | m # _ \<Rightarrow> Some (1, m_index m))"
  "firstActivation (fst (extractPatterns E initializePatterns text)) ''activation_action''
     = (case E activation_action_regex text of [] \<Rightarrow> None | m # _ \<Rightarrow> Some (1, m_index m))"
proof -
  have e: "activation_reaction_extractor = (\<lambda>m. Inr (ActivationFact ''reaction'' 1))"
          "activation_bonus_extractor = (\<lambda>m. Inr (ActivationFact ''bonus'' 1))"
          "activation_action_extractor = (\<lambda>m. Inr (ActivationFact ''action'' 1))"
    by (simp_all add: fun_eq_iff activation_reaction_extractor_def activation_bonus_extractor_def
                      activation_action_extractor_def)
  have ng: "\<not> re_global activation_reaction_regex" "\<not> re_global activation_bonus_regex"
           "\<not> re_global activation_action_regex"
    by (simp_all add: re_global_def re_def activation_reaction_regex_def activation_bonus_regex_def
                      activation_action_regex_def)
  show "firstActivation (fst (extractPatterns E initializePatterns text)) ''activation_reaction''
     = (case E activation_reaction_regex text of [] \<Rightarrow> None | m # _ \<Rightarrow> Some (1, m_index m))"
    by (rule firstActivation_constant[OF activation_lookups(1)[unfolded e] ng(1)])
  show "firstActivation (fst (extractPatterns E initializePatterns text)) ''activation_bonus''
     = (case E activation_bonus_regex text of [] \<Rightarrow> None | m # _ \<Rightarrow> Some (1, m_index m))"
    by (rule firstActivation_constant[OF activation_lookups(2)[unfolded e] ng(2)])
  show "firstActivation (fst (extractPatterns E initializePatterns text)) ''activation_action''
     = (case E activation_action_regex text of [] \<Rightarrow> None | m # _ \<Rightarrow> Some (1, m_index m))"
    by (rule firstActivation_constant[OF activation_lookups(3)[unfolded e] ng(3)])
qed

subsection \<open>The coverage counters\<close>

lemma counters_in_step:
  "(if c then (t + l, a + l) else (t, a)) = (t + (if c then l else 0), a + (if c then l else (0::nat)))"
  by simp

lemma calculateAutomationCoverage_one: "calculateAutomationCoverage analysis = 1"
  unfolding calculateAutomationCoverage_def Let_def counters_in_step prod.case
  by simp

subsection \<open>The activities of an artifact\<close>

lemma generateAutomation_activities:
  "item_activities (ar_item (fst (generateAutomation E rnd ability k)))
     = generateActivities E ability (fst (generateEffectIds rnd ability k))"
  by (simp add: generateAutomation_def generateItemData_def Let_def split: prod.splits)

lemma generateActivities_save:
  "map_of (generateActivities E ability ids) ''dnd5eactivity100''
     = (if saves ability \<noteq> []
        then Some (generateSaveActivity E ability
                     ((atype ability = SPELL_ATTACK \<or> atype ability = WEAPON_ATTACK)
                      \<and> conditions ability \<noteq> []) ids)
        else None)"
  by (simp add: generateActivities_def Let_def map_of_map_set)

lemma generateActivities_attack:
  "map_of (generateActivities E ability ids) ''dnd5eactivity000''
     = (if atype ability = SPELL_ATTACK \<or> atype ability = WEAPON_ATTACK
        then Some (generateAttackActivity E ability ids)
        else None)"
  by (simp add: generateActivities_def Let_def map_of_map_set)

subsection \<open>Artifacts up to their identifiers\<close>






lemma generateEffectIdsLoop_length: "length (fst (generateEffectIdsLoop rnd cs k)) = length cs"
  by (induction cs arbitrary: k) (simp_all add: case_prod_beta Let_def)


subsection \<open>Identifiers of condition effects\<close>

lemma foundryIdLoop_length:
  assumes "\<forall>k. rnd k < 62"
  shows "length (fst (foundryIdLoop rnd n ident k)) = length ident + n"
proof (induction n arbitrary: ident k)
  case 0
  then show ?case by simp
next
  case (Suc n)
  have lc: "length chars = 62"
    by (simp add: chars_def)
  have "length (charAt chars (rnd k)) = 1"
    using assms by (simp add: charAt_def lc)
  then show ?case by (simp add: Suc.IH)
qed

lemma generateFoundryId_nonempty:
  assumes "\<forall>k. rnd k < 62"
  shows "fst (generateFoundryId rnd k) \<noteq> []"
  using foundryIdLoop_length[OF assms, of 16 "[]" k]
  by (auto simp: generateFoundryId_def)

lemma generateEffectIdsLoop_nonempty:
  assumes "\<forall>k. rnd k < 62"
  shows "[] \<notin> set (fst (generateEffectIdsLoop rnd cs k))"
  using generateFoundryId_nonempty[OF assms, THEN not_sym]
  by (induction cs arbitrary: k) (auto simp: case_prod_beta Let_def)

lemma advantage_not_a_status:
  "mapConditionToStatus ''advantage'' = None" "mapConditionToStatus ''disadvantage'' = None"
  by code_simp+

lemma createConditionEffect_id:
  assumes "idx < length (conditions ab)"
    and "mapConditionToStatus (cond_type (conditions ab ! idx)) \<noteq> None"
  shows "map_option ae_id (createConditionEffect ab i idx) = Some i"
proof -
  have "cond_type (conditions ab ! idx) \<noteq> ''advantage''"
       "cond_type (conditions ab ! idx) \<noteq> ''disadvantage''"
    using assms(2) advantage_not_a_status by auto
  then show ?thesis
    using assms by (auto simp: createConditionEffect_def Let_def)
qed

lemma forEachCondition_ids:
  assumes "\<forall>idx \<in> set idxs. idx < length ids \<and> ids ! idx \<noteq> [] \<and> idx < length (conditions ab)
             \<and> mapConditionToStatus (cond_type (conditions ab ! idx)) \<noteq> None"
  shows "ae_id ` set (fst (forEachCondition rnd ab (Some ids) idxs acc k))
           = ae_id ` set acc \<union> (\<lambda>idx. ids ! idx) ` set idxs"
  using assms
proof (induction idxs arbitrary: acc k)
  case Nil
  then show ?case by simp
next
  case (Cons idx idxs)
  from Cons.prems have h: "idx < length ids" "ids ! idx \<noteq> []" "idx < length (conditions ab)"
      "mapConditionToStatus (cond_type (conditions ab ! idx)) \<noteq> None"
    and rest: "\<forall>idx \<in> set idxs. idx < length ids \<and> ids ! idx \<noteq> [] \<and> idx < length (conditions ab)
             \<and> mapConditionToStatus (cond_type (conditions ab ! idx)) \<noteq> None"
    by auto
  from createConditionEffect_id[OF h(3,4), of "ids ! idx"]
  obtain e where e: "createConditionEffect ab (ids ! idx) idx = Some e" "ae_id e = ids ! idx"
    by auto
  have "fst (forEachCondition rnd ab (Some ids) (idx # idxs) acc k)
          = fst (forEachCondition rnd ab (Some ids) idxs (acc @ [e]) k)"
    using h e by (simp add: Let_def)
  then show ?case
    using Cons.IH[OF rest, of "acc @ [e]" k] e by auto
qed

lemma generateActiveEffects_ids:
  assumes "\<forall>c \<in> set (conditions ab). mapConditionToStatus (cond_type c) \<noteq> None"
    and "length ids = length (conditions ab)" and "[] \<notin> set ids"
  shows "set ids \<subseteq> ae_id ` set (fst (generateActiveEffects rnd ab (Some ids) k))"
proof -
  have pre: "\<forall>idx \<in> set [0..<length (conditions ab)].
               idx < length ids \<and> ids ! idx \<noteq> [] \<and> idx < length (conditions ab)
               \<and> mapConditionToStatus (cond_type (conditions ab ! idx)) \<noteq> None"
    using assms by (auto simp: in_set_conv_nth) (metis nth_mem)+
  have all: "(\<lambda>idx. ids ! idx) ` set [0..<length (conditions ab)] = set ids"
    using assms(2) by (auto simp: in_set_conv_nth)
  show ?thesis
    using forEachCondition_ids[OF pre, of rnd] all
    by (auto simp: generateActiveEffects_def Let_def case_prod_beta image_image
             simp del: upt.simps set_upt)
qed

lemma referencedEffectIds_are_effectIds:
  "\<forall>refs \<in> set (referencedEffectIds (fst (generateAutomation E rnd ability k))).
      refs = fst (generateEffectIds rnd ability k)"
  by (auto simp: referencedEffectIds_def generateAutomation_def generateItemData_def
                 generateActivities_def generateAttackActivity_def generateSaveActivity_def
                 Let_def case_prod_beta comp_def)

subsection \<open>The claims\<close>

text \<open>
  C1. Every effect identifier listed by a generated activity should be the \<open>_id\<close> of
  an effect of the artifact's effect list, also when the condition list holds
  advantage or disadvantage entries. On the sample attack that grants advantage the
  attack activity lists the identifier generated for the advantage entry, and the
  effect list is empty: \<open>generateEffectIds\<close> draws an identifier for every condition,
  \<open>createConditionEffect\<close> builds no effect for an advantage or disadvantage entry.
\<close>

theorem C1_reference_without_effect:
  "referencedEffectIds (fst (generateAutomation sampleEngine drawsA sampleAbility 0))
     = [[''AAAAAAAAAAAAAAAA'']]
   \<and> map ae_id (ar_effects (fst (generateAutomation sampleEngine drawsA sampleAbility 0))) = []"
  by code_simp

text \<open>
  C2. For every parsed ability classified as a weapon or spell attack that has at
  least one save and at least one condition, the generated save activity has
  damage-on-save mode \<open>none\<close> and its damage is suppressed: its only part is the
  blank part, without dice or bonus, that names the type of the first damage entry;
  the generated attack activity carries the ability's damage parts. For an ability
  with a save but without the attack-plus-condition combination, the save activity
  has mode \<open>half\<close> and carries the full damage parts. The damage parts are one per
  damage entry, in order, each with the entry's type: the dice count, the die size
  and the bonus read off a formula of the shape \<open>NdM+B\<close>, any other formula kept as
  a custom formula.
\<close>

theorem C2_no_double_damage:
  "(let acts = item_activities (ar_item (fst (generateAutomation E rnd ability k)));
        hasAttack = (atype ability = WEAPON_ATTACK \<or> atype ability = SPELL_ATTACK);
        attack = map_of acts ''dnd5eactivity000'';
        save = map_of acts ''dnd5eactivity100'';
        fullParts =
          map (\<lambda>d. case str_match E formula_regex (dmg_formula d) of
                      Some m \<Rightarrow>
                        \<lparr>part_number = Some (parseIntOpt (m_group m 1)),
                         part_denomination = Some (parseIntOpt (m_group m 2)),
                         part_bonus = (case m_group m 3 of Some b \<Rightarrow> b | None \<Rightarrow> []),
                         part_types = [dmg_type d],
                         part_custom_enabled = False, part_custom_formula = [],
                         part_scaling_number = None\<rparr>
                    | None \<Rightarrow>
                        \<lparr>part_number = None, part_denomination = None, part_bonus = [],
                         part_types = [dmg_type d],
                         part_custom_enabled = True, part_custom_formula = dmg_formula d,
                         part_scaling_number = None\<rparr>)
              (damage ability);
        blankPart =
          \<lparr>part_number = None, part_denomination = None, part_bonus = [],
           part_types = (case damage ability of [] \<Rightarrow> [] | d # ds \<Rightarrow> [dmg_type d]),
           part_custom_enabled = False, part_custom_formula = [],
           part_scaling_number = Some 1\<rparr>
    in (hasAttack \<and> saves ability \<noteq> [] \<and> conditions ability \<noteq> [] \<longrightarrow>
          map_option acty_type save = Some ''save''
          \<and> map_option acty_damage_onSave save = Some (Some ''none'')
          \<and> map_option acty_damage_parts save = Some [blankPart]
          \<and> map_option acty_type attack = Some ''attack''
          \<and> map_option acty_damage_parts attack = Some fullParts)
     \<and> (saves ability \<noteq> [] \<and> \<not> (hasAttack \<and> conditions ability \<noteq> []) \<longrightarrow>
          map_option acty_type save = Some ''save''
          \<and> map_option acty_damage_onSave save = Some (Some ''half'')
          \<and> map_option acty_damage_parts save = Some fullParts))"
proof (cases "damage ability")
  case Nil
  then show ?thesis
    unfolding Let_def generateAutomation_activities generateActivities_save
              generateActivities_attack
    by (auto simp: generateSaveActivity_def generateAttackActivity_def
                   generateActivityDamageParts_def Let_def)
next
  case (Cons d ds)
  then show ?thesis
    unfolding Let_def generateAutomation_activities generateActivities_save
              generateActivities_attack
    by (auto simp: generateSaveActivity_def generateAttackActivity_def
                   generateActivityDamageParts_def Let_def)
qed

text \<open>The sample attack with a save and the prone condition, and the sample
  save-based ability with the same damage: the first has the dice on its attack
  activity only, the second on its save activity.\<close>

theorem C2_no_double_damage_witness:
  "(let acts = item_activities (ar_item (fst (generateAutomation sampleEngine drawsA sampleProneAbility 0)))
    in map_option acty_damage_onSave (map_of acts ''dnd5eactivity100'') = Some (Some ''none'')
       \<and> map_option acty_damage_parts (map_of acts ''dnd5eactivity100'')
           = Some [\<lparr>part_number = None, part_denomination = None, part_bonus = [],
                    part_types = [''bludgeoning''], part_custom_enabled = False,
                    part_custom_formula = [], part_scaling_number = Some 1\<rparr>]
       \<and> map_option acty_damage_parts (map_of acts ''dnd5eactivity000'')
           = Some [\<lparr>part_number = Some (Num 1), part_denomination = Some (Num 8), part_bonus = ''3'',
                    part_types = [''bludgeoning''], part_custom_enabled = False,
                    part_custom_formula = [], part_scaling_number = None\<rparr>])
   \<and> (let acts = item_activities (ar_item (fst (generateAutomation sampleEngine drawsA sampleSaveAbility 0)))
      in map_option acty_damage_onSave (map_of acts ''dnd5eactivity100'') = Some (Some ''half'')
         \<and> map_option acty_damage_parts (map_of acts ''dnd5eactivity100'')
             = Some [\<lparr>part_number = Some (Num 1), part_denomination = Some (Num 8), part_bonus = ''3'',
                      part_types = [''bludgeoning''], part_custom_enabled = False,
                      part_custom_formula = [], part_scaling_number = None\<rparr>])"
proof -
  have p: "atype sampleProneAbility = WEAPON_ATTACK" "saves sampleProneAbility \<noteq> []"
          "conditions sampleProneAbility \<noteq> []"
    by (simp_all add: sampleProneAbility_def sampleAbility_def)
  have q: "atype sampleSaveAbility = SAVE_ABILITY" "saves sampleSaveAbility \<noteq> []"
    by (simp_all add: sampleSaveAbility_def sampleProneAbility_def sampleAbility_def)
  have d: "damage sampleProneAbility
             = [\<lparr>dmg_formula = ''1d8+3'', dmg_type = ''bludgeoning'', dmg_versatile = None,
                 dmg_conditional = Some False, dmg_condition = None\<rparr>]"
          "damage sampleSaveAbility = damage sampleProneAbility"
    by (simp_all add: sampleSaveAbility_def sampleProneAbility_def sampleAbility_def)
  have t: "''1d8+3'' \<noteq> sampleDamageText" "''1d8+3'' \<noteq> sampleDazeText"
    by (simp_all add: sampleDamageText_def sampleDazeText_def)
  have m: "str_match sampleEngine formula_regex ''1d8+3''
             = Some (mkMatch ''1d8+3'' [Some ''1'', Some ''8'', Some ''3''] 0)"
    using t by (simp add: str_match_def sampleEngine_def)
  have n: "parseInt ''1'' = Num 1" "parseInt ''8'' = Num 8"
    by (simp_all add: parseInt_def Let_def isWhiteSpace_def code_def digitVal_def)
  show ?thesis
    using C2_no_double_damage[of sampleEngine drawsA sampleProneAbility 0]
          C2_no_double_damage[of sampleEngine drawsA sampleSaveAbility 0]
    unfolding Let_def
    by (simp add: p q d m mkMatch_def m_group_def parseIntOpt_def n)
qed

text \<open>
  C3. For every ability, whatever the engine finds in its text and whatever the
  enhancement subsystems report, the final complexity tier is at least the base tier
  of the parsed ability: the enhanced analysis only raises the base tier, and the
  final computation only raises the tier of the enhanced analysis.
\<close>

theorem C3_final_complexity_monotone:
  "complexity ability \<le> complexity (parseComplexAbility E ability)
   \<and> complexity (parseComplexAbility E ability)
        \<le> calculateFinalComplexity (parseComplexAbility E ability) systemFlags
   \<and> complexity ability \<le> calculateFinalComplexity (parseComplexAbility E ability) systemFlags"
proof -
  have a: "complexity e \<le> assessEnhancedComplexity e" for e :: EnhancedAbilityData
    by (simp add: assessEnhancedComplexity_def Let_def le_max_iff_disj)
  have b: "complexity e \<le> calculateFinalComplexity e systemFlags" for e :: EnhancedAbilityData
    by (simp add: calculateFinalComplexity_def Let_def le_max_iff_disj)
  have c: "complexity ability \<le> complexity (parseComplexAbility E ability)"
    unfolding parseComplexAbility_def Let_def
    using a[of "\<lparr>name = name ability, raw = raw ability, atype = atype ability,
             attackType = attackType ability, attackBonus = attackBonus ability,
             activation = activation ability, target = target ability,
             damage = damage ability, saves = saves ability, effects = effects ability,
             conditions = conditions ability, resources = resources ability,
             duration = duration ability, range = range ability,
             complexity = complexity ability,
             requirements = parseRequirements E (raw ability),
             linkedEffects = parseLinkedEffects E (raw ability),
             automation = determineAutomationStrategy E ability\<rparr>"]
    by simp
  from c b[of "parseComplexAbility E ability"] show ?thesis by simp
qed



text \<open>
  C5. For every parsed ability the baseline complexity tier computed by
  \<open>assessComplexity\<close> equals the specification's computation: start at 1, add 1 for a
  non-empty condition list, add 1 for more than one damage entry, set the score to 4
  for a reaction activation, add 1 for more than one effect, add 1 when a save and an
  effect are both present, add 1 when a resource is consumed, clamp to at most 4.
\<close>

theorem C5_assessComplexity_spec:
  "assessComplexity ability = spec_complexity_tier ability"
  by (simp add: assessComplexity_def spec_complexity_tier_def b2i_def Let_def min_def)

text \<open>
  C6. Whatever the text and the registered patterns: a match on which the extractor
  throws is skipped and warned about, and the loop goes on with the remaining matches
  and patterns. The result stored under a pattern's name is exactly the entries of
  the matches on which its extractor returns (no entry when there is none), the
  console holds one warning per throwing match, and the result under a name depends
  on the pattern registered under that name only, so a failure elsewhere leaves it
  unchanged. \<open>extractPatterns\<close> itself returns a result map in every case.
\<close>

theorem C6_extractor_throw_is_skipped:
  assumes "distinct (map fst patterns)"
  shows "(\<forall>nm pattern. map_of patterns nm = Some pattern \<longrightarrow>
            map_of (fst (extractPatterns E patterns text)) nm =
              (if keptMatches pattern (E (p_regex pattern) text) = [] then None
               else Some (keptMatches pattern (E (p_regex pattern) text))))
       \<and> snd (extractPatterns E patterns text) =
            concat (map (\<lambda>(nm, p). warnedMatches nm p (E (p_regex p) text)) (sortByPriority patterns))
       \<and> (\<forall>patterns' nm. distinct (map fst patterns') \<longrightarrow> map_of patterns' nm = map_of patterns nm \<longrightarrow>
            map_of (fst (extractPatterns E patterns' text)) nm =
            map_of (fst (extractPatterns E patterns text)) nm)"
  using assms
  by (simp add: extractPatterns_lookup extractPatterns_console)

text \<open>On the sample registry the match at index 0 is skipped with a warning, the
  match at index 2 is kept, and the second pattern's result is there.\<close>

theorem C6_extractor_throw_is_skipped_witness:
  "distinct (map fst sampleRegistry)
   \<and> map_of (fst (extractPatterns sampleScan sampleRegistry ''aXa'')) ''first''
       = Some [\<lparr>pm_extracted = 2, pm_matchText = ''a'', pm_index = 2\<rparr>]
   \<and> map_of (fst (extractPatterns sampleScan sampleRegistry ''aXa'')) ''second''
       = Some [\<lparr>pm_extracted = 1, pm_matchText = ''X'', pm_index = 1\<rparr>]
   \<and> snd (extractPatterns sampleScan sampleRegistry ''aXa'')
       = [(''Error extracting pattern first:'', ErrorObject ''no fact at the start'')]"
proof -
  have d: "distinct (map fst sampleRegistry)"
    by (simp add: sampleRegistry_def)
  have s: "sortByPriority sampleRegistry = rev sampleRegistry"
    by (simp add: sortByPriority_def sampleRegistry_def mkPattern_def)
  have ne: "re ''X'' [] \<noteq> re ''a'' ''g''"
    by (simp add: re_def)
  note th = C6_extractor_throw_is_skipped[OF d, of sampleScan "''aXa''"]
  have first: "map_of sampleRegistry ''first'' = Some (snd (sampleRegistry ! 0))"
    and second: "map_of sampleRegistry ''second'' = Some (snd (sampleRegistry ! 1))"
    by (simp_all add: sampleRegistry_def)
  have k1: "keptMatches (snd (sampleRegistry ! 0)) (sampleScan (p_regex (snd (sampleRegistry ! 0))) ''aXa'')
              = [\<lparr>pm_extracted = 2, pm_matchText = ''a'', pm_index = 2\<rparr>]"
    by (simp add: sampleRegistry_def mkPattern_def sampleScan_def keptMatches_def scannedMatches_def
                  re_global_def re_def mkMatch_def List.map_filter_simps)
  have k2: "keptMatches (snd (sampleRegistry ! 1)) (sampleScan (p_regex (snd (sampleRegistry ! 1))) ''aXa'')
              = [\<lparr>pm_extracted = 1, pm_matchText = ''X'', pm_index = 1\<rparr>]"
    using ne
    by (simp add: sampleRegistry_def mkPattern_def sampleScan_def keptMatches_def scannedMatches_def
                  re_global_def mkMatch_def List.map_filter_simps)
  have w: "concat (map (\<lambda>(nm, p). warnedMatches nm p (sampleScan (p_regex p) ''aXa''))
                     (sortByPriority sampleRegistry))
             = [(''Error extracting pattern first:'', ErrorObject ''no fact at the start'')]"
    unfolding s using ne
    by (simp add: sampleRegistry_def mkPattern_def sampleScan_def warnedMatches_def scannedMatches_def
                  re_global_def mkMatch_def List.map_filter_simps)
  from th first k1 have r1: "map_of (fst (extractPatterns sampleScan sampleRegistry ''aXa'')) ''first''
       = Some [\<lparr>pm_extracted = 2, pm_matchText = ''a'', pm_index = 2\<rparr>]"
    by simp
  from th second k2 have r2: "map_of (fst (extractPatterns sampleScan sampleRegistry ''aXa'')) ''second''
       = Some [\<lparr>pm_extracted = 1, pm_matchText = ''X'', pm_index = 1\<rparr>]"
    by simp
  from th w have r3: "snd (extractPatterns sampleScan sampleRegistry ''aXa'')
       = [(''Error extracting pattern first:'', ErrorObject ''no fact at the start'')]"
    by simp
  from d r1 r2 r3 show ?thesis by simp
qed

text \<open>
  C7. For every text on which the base conversion succeeds and the enhancement
  pipeline throws, \<open>convertAbility\<close> returns, rather than throws: the result is a
  success, carries the unmodified base artifact as its item, and its
  \<open>phase2Enhancement\<close> record has \<open>applied\<close> false and a reason made of
  \<open>Enhancement failed:\<close> and the message of the thrown value.
\<close>

theorem C7_enhancement_failure_falls_back:
  assumes "analyzeText abilityText = Inr description"
    and "applyPhase2Enhancement (desc_parsed description)
           (baseArtifact E rnd k (desc_parsed description)) = Inl err"
  shows "(let r = convertAbility analyzeText E rnd k applyPhase2Enhancement abilityText
          in success r
             \<and> foundryItem r = Some (baseArtifact E rnd k (desc_parsed description))
             \<and> base_automation r = Some (fst (generateAutomation E rnd (desc_parsed description) k))
             \<and> error r = None
             \<and> applied (phase2Enhancement r) = False
             \<and> reason (phase2Enhancement r) = Some (''Enhancement failed: '' @ thrownMessage err))"
  using assms
  by (simp add: convertAbility_def baseArtifact_def withEnhancement_def notApplied_def
                thrownMessage_def Let_def case_prod_beta)

theorem C7_enhancement_failure_falls_back_witness:
  "(let r = convertAbility sampleAnalyzer sampleEngine drawsA 0 failingEnhancement ''Melee Weapon Attack: +5 to hit. The creature has advantage on attack rolls.''
    in success r
       \<and> foundryItem r = Some (baseArtifact sampleEngine drawsA 0 sampleAbility)
       \<and> applied (phase2Enhancement r) = False
       \<and> reason (phase2Enhancement r) = Some ''Enhancement failed: pass failed'')"
proof -
  have a: "sampleAnalyzer ''Melee Weapon Attack: +5 to hit. The creature has advantage on attack rolls.'' = Inr \<lparr>desc_raw = ''Melee Weapon Attack: +5 to hit. The creature has advantage on attack rolls.'', desc_parsed = sampleAbility\<rparr>"
    by (simp add: sampleAnalyzer_def)
  have b: "failingEnhancement (desc_parsed \<lparr>desc_raw = ''Melee Weapon Attack: +5 to hit. The creature has advantage on attack rolls.'', desc_parsed = sampleAbility\<rparr>)
             (baseArtifact sampleEngine drawsA 0
                (desc_parsed \<lparr>desc_raw = ''Melee Weapon Attack: +5 to hit. The creature has advantage on attack rolls.'', desc_parsed = sampleAbility\<rparr>))
           = Inl (ErrorObject ''pass failed'')"
    by (simp add: failingEnhancement_def)
  note th = C7_enhancement_failure_falls_back
               [where analyzeText = sampleAnalyzer and abilityText = "''Melee Weapon Attack: +5 to hit. The creature has advantage on attack rolls.''"
                  and description = "\<lparr>desc_raw = ''Melee Weapon Attack: +5 to hit. The creature has advantage on attack rolls.'', desc_parsed = sampleAbility\<rparr>"
                  and applyPhase2Enhancement = failingEnhancement
                  and E = sampleEngine and rnd = drawsA and k = 0
                  and err = "ErrorObject ''pass failed''"]
  show ?thesis
    using th[OF a b]
    by (simp add: Let_def thrownMessage_def)
qed



text \<open>
  C9. For every text the activation descriptor is resolved in this order: a match of
  the reaction pattern gives type reaction; otherwise a match of the bonus-action
  pattern gives type bonus, but only when it begins within the first 50 characters;
  otherwise a match of the action pattern gives type action; otherwise the default
  is type action with cost 1.
\<close>

theorem C9_extractActivation_priority:
  "extractActivation (fst (extractPatterns E initializePatterns text)) =
     (if E activation_reaction_regex text \<noteq> []
      then \<lparr>act_type = A_reaction, act_cost = 1, act_condition = None\<rparr>
      else if E activation_bonus_regex text \<noteq> []
              \<and> m_index (hd (E activation_bonus_regex text)) < 50
      then \<lparr>act_type = A_bonus, act_cost = 1, act_condition = None\<rparr>
      else if E activation_action_regex text \<noteq> []
      then \<lparr>act_type = A_action, act_cost = 1, act_condition = None\<rparr>
      else \<lparr>act_type = A_action, act_cost = 1, act_condition = None\<rparr>)"
  unfolding extractActivation_def firstActivation_registry
  by (simp split: list.splits)

text \<open>In the sample text the bonus action is named at index 71, inside the
  description of a condition, and the activation is an action.\<close>

theorem C9_extractActivation_priority_witness:
  "extractActivation (fst (extractPatterns sampleEngine initializePatterns sampleDazeText))
     = \<lparr>act_type = A_action, act_cost = 1, act_condition = None\<rparr>"
proof -
  have t: "sampleDazeText \<noteq> sampleDamageText"
    by (simp add: sampleDazeText_def sampleDamageText_def)
  have r: "activation_reaction_regex \<noteq> weapon_attack_regex"
          "activation_reaction_regex \<noteq> activation_action_regex"
          "activation_reaction_regex \<noteq> activation_bonus_regex"
          "activation_bonus_regex \<noteq> weapon_attack_regex"
          "activation_bonus_regex \<noteq> activation_action_regex"
          "activation_action_regex \<noteq> weapon_attack_regex"
    by (simp_all add: activation_reaction_regex_def weapon_attack_regex_def activation_action_regex_def
                      activation_bonus_regex_def re_def)
  have f: "formula_regex \<noteq> activation_reaction_regex"
    by (simp add: formula_regex_def activation_reaction_regex_def re_def)
  have a: "sampleEngine activation_reaction_regex sampleDazeText = []"
    using t r f by (auto simp: sampleEngine_def sampleDazeText_def)
  have b: "sampleEngine activation_bonus_regex sampleDazeText = [mkMatch ''bonus action'' [] 71]"
    using t r by (simp add: sampleEngine_def)
  have c: "sampleEngine activation_action_regex sampleDazeText
             = [mkMatch ''action'' [] 61, mkMatch ''action'' [] 77]"
    using t r by (simp add: sampleEngine_def)
  show ?thesis
    using C9_extractActivation_priority[of sampleEngine sampleDazeText]
    unfolding a b c
    by (simp add: mkMatch_def)
qed

text \<open>
  C10. For every enhanced analysis the automation-coverage ratio is exactly 1 (each
  counted feature adds the same amount to the automated and to the total count, and
  with no feature the ratio is 1 by definition), so the coverage step of the quality
  score always adds its maximum of 3 points.
\<close>

theorem C10_coverage_is_one:
  "calculateAutomationCoverage analysis = 1
   \<and> assessProfessionalGrade item (metrics\<lparr>automationCoverage := calculateAutomationCoverage analysis\<rparr>)
       = min (gradeWithoutCoverage metrics + 3) 10"
  unfolding calculateAutomationCoverage_one
  by (simp add: assessProfessionalGrade_def gradeWithoutCoverage_def b2i_def Let_def)

subsection \<open>Further properties\<close>

text \<open>
  X1. The identifier correlation holds whenever every condition of the ability maps
  to a status (so none is an advantage or disadvantage entry) and every draw of the
  random source is an index into \<open>chars\<close>: each identifier an activity refers to is
  then the \<open>_id\<close> of an effect of the artifact.
\<close>

theorem identifier_correlation_when_every_condition_has_a_status:
  assumes "\<forall>c \<in> set (conditions ability). mapConditionToStatus (cond_type c) \<noteq> None"
    and "\<forall>k. rnd k < 62"
  shows "\<forall>refs \<in> set (referencedEffectIds (fst (generateAutomation E rnd ability k))).
           set refs \<subseteq> ae_id ` set (ar_effects (fst (generateAutomation E rnd ability k)))"
proof -
  let ?ids = "fst (generateEffectIds rnd ability k)"
  have l: "length ?ids = length (conditions ability)"
    by (simp add: generateEffectIds_def generateEffectIdsLoop_length)
  have n: "[] \<notin> set ?ids"
    by (simp add: generateEffectIds_def generateEffectIdsLoop_nonempty[OF assms(2)])
  have e: "ar_effects (fst (generateAutomation E rnd ability k))
             = fst (generateActiveEffects rnd ability (Some ?ids) (snd (generateEffectIds rnd ability k)))"
    by (simp add: generateAutomation_def Let_def case_prod_beta)
  show ?thesis
    using referencedEffectIds_are_effectIds[of E rnd ability k]
          generateActiveEffects_ids[OF assms(1) l n, of rnd "snd (generateEffectIds rnd ability k)"]
    unfolding e by auto
qed

theorem identifier_correlation_witness:
  "referencedEffectIds (fst (generateAutomation sampleEngine drawsA sampleProneAbility 0))
       = [[''AAAAAAAAAAAAAAAA''], [''AAAAAAAAAAAAAAAA'']]
   \<and> set [''AAAAAAAAAAAAAAAA'']
       \<subseteq> ae_id ` set (ar_effects (fst (generateAutomation sampleEngine drawsA sampleProneAbility 0)))"
proof -
  have a: "\<forall>c \<in> set (conditions sampleProneAbility). mapConditionToStatus (cond_type c) \<noteq> None"
    by code_simp
  have b: "\<forall>k. drawsA k < 62"
    by (simp add: drawsA_def)
  have r: "referencedEffectIds (fst (generateAutomation sampleEngine drawsA sampleProneAbility 0))
       = [[''AAAAAAAAAAAAAAAA''], [''AAAAAAAAAAAAAAAA'']]"
    by code_simp
  from identifier_correlation_when_every_condition_has_a_status[OF a b, of sampleEngine 0]
  show ?thesis
    unfolding r by simp
qed

text \<open>
  X2. \<open>getFirstMatch\<close> returns null, after a warning, when the extractor of the named
  pattern throws on the first match.
\<close>

theorem getFirstMatch_throw_gives_null:
  assumes "map_of patterns patternName = Some pattern"
    and "E (p_regex pattern) text = m # ms"
    and "p_extractor pattern m = Inl e"
  shows "getFirstMatch E patterns text patternName
           = (None, [(''Error extracting pattern '' @ patternName @ '':'', e)])"
  using assms by (simp add: getFirstMatch_def)

theorem getFirstMatch_throw_gives_null_witness:
  "getFirstMatch sampleScan sampleRegistry ''aXa'' ''first''
     = (None, [(''Error extracting pattern first:'', ErrorObject ''no fact at the start'')])"
proof -
  let ?p = "mkPattern ''first'' (re ''a'' ''g'')
              (\<lambda>m. if m_index m = 0 then Inl (ErrorObject ''no fact at the start'')
                   else Inr (m_index m)) 1"
  have a: "map_of sampleRegistry ''first'' = Some ?p"
    by (simp add: sampleRegistry_def)
  have b: "sampleScan (p_regex ?p) ''aXa'' = mkMatch ''a'' [] 0 # [mkMatch ''a'' [] 2]"
    by (simp add: sampleScan_def mkPattern_def)
  have c: "p_extractor ?p (mkMatch ''a'' [] 0) = Inl (ErrorObject ''no fact at the start'')"
    by (simp add: mkPattern_def mkMatch_def)
  note th = getFirstMatch_throw_gives_null
               [of sampleRegistry "''first''" ?p sampleScan "''aXa''"
                   "mkMatch ''a'' [] 0" "[mkMatch ''a'' [] 2]"
                   "ErrorObject ''no fact at the start''"]
  from th[OF a b c] show ?thesis by simp
qed

end
